theory Spec2Isabelle
  imports Main "HOL-Library.Multiset" "HOL-Library.AList"
begin

section \<open>Shared Python values and exceptions\<close>

text \<open>
  The library is Python. The values that flow through the modelled routines
  are integers, strings, booleans and \<open>None\<close>; an exception raised by a routine
  is the \<open>Inl\<close> branch of its result.
\<close>

datatype pyval = PNone | PBool bool | PInt int | PStr string

datatype exn =
    ValueError string
  | KeyError string
  | TypeError
  | IndexError
  | InvalidLatitudeError
  | DiscoveryException string

section \<open>The BigQuery tileset generator (io/managers/gbq\_manager.py)\<close>

definition MAX_PARTITIONS :: int where
  "MAX_PARTITIONS = 10000"

definition MAX_QUADKEY_ZOOM :: int where
  "MAX_QUADKEY_ZOOM = 20"

definition MIN_MEDIUM_LEVEL_ZOOM :: int where
  "MIN_MEDIUM_LEVEL_ZOOM = 9"

definition MAX_MEDIUM_LEVEL_ZOOM :: int where
  "MAX_MEDIUM_LEVEL_ZOOM = 11"

definition DEFAULT_ZOOMS :: "int list" where
  "DEFAULT_ZOOMS = [0, 4, 8, 12, 14]"

definition TILE_EXTENT :: int where
  "TILE_EXTENT = 4096"

definition TILE_BUFFER :: int where
  "TILE_BUFFER = 256"

text \<open>
  Every insert method reads a SQL template from a file and fills it in with
  \<open>str.format\<close>. A filled-in template is the name of the template together
  with the values of its fields; \<open>q_depth\<close> is a field of the high-level
  template only. Coordinates are Python floats, of which the methods only
  copy values around, so their type is left open as \<open>'c\<close>.
\<close>

record 'c insert_fields =
  q_prepare_table :: string
  q_xmin :: 'c
  q_ymin :: 'c
  q_xmax :: 'c
  q_ymax :: 'c
  q_zooms :: "int list"
  q_depth :: "int option"
  q_quadkey_zoom :: int
  q_tile_extent :: int
  q_tile_buffer :: int
  q_options :: string
  q_output_table :: string

datatype 'c gbq_query =
    InsertLowLevel "'c insert_fields"
  | InsertMediumLevel "'c insert_fields"
  | InsertHighLevel "'c insert_fields"

text \<open>\<open>bbox[i]\<close>: a Python list read, which raises IndexError out of range.\<close>

definition bbox_get :: "'c list \<Rightarrow> nat \<Rightarrow> exn + 'c" where
  "bbox_get bbox i = (if i < length bbox then Inr (bbox ! i) else Inl IndexError)"

text \<open>
  The fields common to the three templates, read from the arguments in the
  order the source's \<open>format\<close> call lists them.
\<close>

definition format_insert ::
  "string \<Rightarrow> 'c list \<Rightarrow> int list \<Rightarrow> int option \<Rightarrow> int \<Rightarrow> string \<Rightarrow> string
    \<Rightarrow> exn + 'c insert_fields" where
  "format_insert prepare_table bbox zooms depth quadkey_zoom options output_table =
     (case bbox_get bbox 0 of Inl e \<Rightarrow> Inl e | Inr xmin \<Rightarrow>
     (case bbox_get bbox 1 of Inl e \<Rightarrow> Inl e | Inr ymin \<Rightarrow>
     (case bbox_get bbox 2 of Inl e \<Rightarrow> Inl e | Inr xmax \<Rightarrow>
     (case bbox_get bbox 3 of Inl e \<Rightarrow> Inl e | Inr ymax \<Rightarrow>
        Inr \<lparr>q_prepare_table = prepare_table, q_xmin = xmin, q_ymin = ymin,
             q_xmax = xmax, q_ymax = ymax, q_zooms = zooms, q_depth = depth,
             q_quadkey_zoom = quadkey_zoom, q_tile_extent = TILE_EXTENT,
             q_tile_buffer = TILE_BUFFER, q_options = options,
             q_output_table = output_table\<rparr>))))"

text \<open>
  \<open>zooms_ = zooms if zooms else DEFAULT_ZOOMS\<close>: \<open>None\<close> and the empty list
  are both falsy.
\<close>

definition zooms_or_default :: "int list option \<Rightarrow> int list" where
  "zooms_or_default zooms =
     (case zooms of None \<Rightarrow> DEFAULT_ZOOMS | Some [] \<Rightarrow> DEFAULT_ZOOMS | Some zs \<Rightarrow> zs)"

text \<open>
  \<open>json.dumps\<close> belongs to the Python standard library: it is a parameter
  \<open>dumps\<close> of the methods that call it. \<open>{**options, 'mvt_geom': 1}\<close> keeps
  the place of a key that is already there and appends a new one.
\<close>

definition complete_options ::
  "((string \<times> pyval) list \<Rightarrow> string) \<Rightarrow> (string \<times> pyval) list \<Rightarrow> string" where
  "complete_options dumps options =
     butlast (dumps (AList.update ''mvt_geom'' (PInt 1) options))
       @ '', \"z\": %d, \"x\": %d, \"y\": %d}''"

text \<open>
  Each method returns the queries it has passed to \<open>execute_query\<close>, in
  order. A template is filled in before it is executed, so a method that
  raises while formatting its first query has executed nothing.
\<close>

definition insert_low_level_zoom_data ::
  "((string \<times> pyval) list \<Rightarrow> string) \<Rightarrow> string \<Rightarrow> 'c list \<Rightarrow> int \<Rightarrow> int list option
    \<Rightarrow> (string \<times> pyval) list \<Rightarrow> string \<Rightarrow> exn + 'c gbq_query list" where
  "insert_low_level_zoom_data dumps prepare_table bbox quadkey_zoom zooms options output_table =
     (let zooms' = zooms_or_default zooms;
          low_level_zooms = filter (\<lambda>zoom. zoom < MIN_MEDIUM_LEVEL_ZOOM) zooms'
      in if low_level_zooms = [] then Inr []
         else
           (let options' = dumps options
            in case format_insert prepare_table bbox low_level_zooms None quadkey_zoom
                      options' output_table of
                 Inl e \<Rightarrow> Inl e
               | Inr q \<Rightarrow> Inr [InsertLowLevel q]))"

definition insert_medium_level_zoom_data_one ::
  "string \<Rightarrow> 'c list \<Rightarrow> int \<Rightarrow> int \<Rightarrow> string \<Rightarrow> string \<Rightarrow> exn + 'c gbq_query" where
  "insert_medium_level_zoom_data_one prepare_table bbox quadkey_zoom zoom options output_table =
     (case format_insert prepare_table bbox [zoom] None quadkey_zoom options output_table of
        Inl e \<Rightarrow> Inl e
      | Inr q \<Rightarrow> Inr (InsertMediumLevel q))"

definition insert_high_level_zoom_data_one ::
  "string \<Rightarrow> 'c list \<Rightarrow> int \<Rightarrow> int \<Rightarrow> string \<Rightarrow> string \<Rightarrow> exn + 'c gbq_query" where
  "insert_high_level_zoom_data_one prepare_table bbox quadkey_zoom zoom options output_table =
     (let zooms = [MAX_MEDIUM_LEVEL_ZOOM];
          depth = zoom - MAX_MEDIUM_LEVEL_ZOOM
      in case format_insert prepare_table bbox zooms (Some depth) quadkey_zoom options
                output_table of
           Inl e \<Rightarrow> Inl e
         | Inr q \<Rightarrow> Inr (InsertHighLevel q))"

text \<open>
  The \<open>for zoom in ...\<close> loops: one query per zoom, in list order, stopping at
  the first exception.
\<close>

fun for_each_zoom :: "(int \<Rightarrow> exn + 'q) \<Rightarrow> int list \<Rightarrow> exn + 'q list" where
  "for_each_zoom body [] = Inr []"
| "for_each_zoom body (zoom # rest) =
     (case body zoom of
        Inl e \<Rightarrow> Inl e
      | Inr q \<Rightarrow> (case for_each_zoom body rest of Inl e \<Rightarrow> Inl e | Inr qs \<Rightarrow> Inr (q # qs)))"

definition insert_medium_level_zoom_data ::
  "((string \<times> pyval) list \<Rightarrow> string) \<Rightarrow> string \<Rightarrow> 'c list \<Rightarrow> int \<Rightarrow> int list option
    \<Rightarrow> (string \<times> pyval) list \<Rightarrow> string \<Rightarrow> exn + 'c gbq_query list" where
  "insert_medium_level_zoom_data dumps prepare_table bbox quadkey_zoom zooms options output_table =
     (let zooms' = zooms_or_default zooms;
          medium_level_zooms =
            filter (\<lambda>zoom. zoom \<ge> MIN_MEDIUM_LEVEL_ZOOM \<and> zoom \<le> MAX_MEDIUM_LEVEL_ZOOM) zooms'
      in if medium_level_zooms = [] then Inr []
         else
           (let options' = complete_options dumps options
            in for_each_zoom
                 (\<lambda>zoom. insert_medium_level_zoom_data_one prepare_table bbox quadkey_zoom zoom
                            options' output_table)
                 medium_level_zooms))"

definition insert_high_level_zoom_data ::
  "((string \<times> pyval) list \<Rightarrow> string) \<Rightarrow> string \<Rightarrow> 'c list \<Rightarrow> int \<Rightarrow> int list option
    \<Rightarrow> (string \<times> pyval) list \<Rightarrow> string \<Rightarrow> exn + 'c gbq_query list" where
  "insert_high_level_zoom_data dumps prepare_table bbox quadkey_zoom zooms options output_table =
     (let zooms' = zooms_or_default zooms;
          high_level_zooms = filter (\<lambda>zoom. zoom > MAX_MEDIUM_LEVEL_ZOOM) zooms'
      in if high_level_zooms = [] then Inr []
         else
           (let options' = complete_options dumps options
            in for_each_zoom
                 (\<lambda>zoom. insert_high_level_zoom_data_one prepare_table bbox quadkey_zoom zoom
                            options' output_table)
                 high_level_zooms))"

subsection \<open>The quadkey-zoom search of \<open>create_empty_tileset\<close>\<close>

text \<open>
  \<open>mercantile.tile\<close> and \<open>mercantile.quadkey\<close> belong to an external library,
  and \<open>int(_, 4)\<close> to Python. The source calls them unguarded, and each of
  them may raise: \<open>mercantile.tile\<close>, for one, raises \<open>InvalidLatitudeError\<close>
  at the latitudes 90 and -90. They are the parameters \<open>tile\<close>, \<open>quadkey\<close> and
  \<open>int4\<close>, with open types for the coordinates, the tiles and the quadkeys.

  The body of the loop down to the two integer quadkeys, in the order of the
  source: both tiles, then both quadkeys, then both integers.
\<close>

definition integer_quadkeys ::
  "('c \<Rightarrow> 'c \<Rightarrow> int \<Rightarrow> exn + 't) \<Rightarrow> ('t \<Rightarrow> exn + 'k) \<Rightarrow> ('k \<Rightarrow> exn + int)
    \<Rightarrow> 'c \<Rightarrow> 'c \<Rightarrow> 'c \<Rightarrow> 'c \<Rightarrow> int \<Rightarrow> exn + int \<times> int" where
  "integer_quadkeys tile quadkey int4 xmin ymin xmax ymax quadkey_zoom =
     (case tile xmin ymax quadkey_zoom of Inl e \<Rightarrow> Inl e | Inr min_tile \<Rightarrow>
     (case tile xmax ymin quadkey_zoom of Inl e \<Rightarrow> Inl e | Inr max_tile \<Rightarrow>
     (case quadkey min_tile of Inl e \<Rightarrow> Inl e | Inr min_quadkey \<Rightarrow>
     (case quadkey max_tile of Inl e \<Rightarrow> Inl e | Inr max_quadkey \<Rightarrow>
     (case int4 min_quadkey of Inl e \<Rightarrow> Inl e | Inr min_integer_quadkey \<Rightarrow>
     (case int4 max_quadkey of Inl e \<Rightarrow> Inl e | Inr max_integer_quadkey \<Rightarrow>
        Inr (min_integer_quadkey, max_integer_quadkey)))))))"

text \<open>
  The loop is \<open>while True\<close> with a \<open>break\<close>, entered with \<open>quadkey_zoom = 1\<close>.
  It ends with the exception of a library call, or with the zoom and the
  last two integer quadkeys, which the code after the loop reads.
\<close>

partial_function (option) quadkey_zoom_loop ::
  "('c \<Rightarrow> 'c \<Rightarrow> int \<Rightarrow> exn + 't) \<Rightarrow> ('t \<Rightarrow> exn + 'k) \<Rightarrow> ('k \<Rightarrow> exn + int)
    \<Rightarrow> 'c \<Rightarrow> 'c \<Rightarrow> 'c \<Rightarrow> 'c \<Rightarrow> int \<Rightarrow> (exn + int \<times> int \<times> int) option" where
  "quadkey_zoom_loop tile quadkey int4 xmin ymin xmax ymax quadkey_zoom =
     (case integer_quadkeys tile quadkey int4 xmin ymin xmax ymax quadkey_zoom of
        Inl e \<Rightarrow> Some (Inl e)
      | Inr (min_integer_quadkey, max_integer_quadkey) \<Rightarrow>
          if max_integer_quadkey - min_integer_quadkey \<ge> MAX_PARTITIONS
             \<or> quadkey_zoom = MAX_QUADKEY_ZOOM
          then Some (Inr (quadkey_zoom, min_integer_quadkey, max_integer_quadkey))
          else quadkey_zoom_loop tile quadkey int4 xmin ymin xmax ymax (quadkey_zoom + 1))"

definition guess_best_quadkey ::
  "('c \<Rightarrow> 'c \<Rightarrow> int \<Rightarrow> exn + 't) \<Rightarrow> ('t \<Rightarrow> exn + 'k) \<Rightarrow> ('k \<Rightarrow> exn + int)
    \<Rightarrow> 'c \<Rightarrow> 'c \<Rightarrow> 'c \<Rightarrow> 'c \<Rightarrow> (exn + int \<times> int \<times> int) option" where
  "guess_best_quadkey tile quadkey int4 xmin ymin xmax ymax =
     quadkey_zoom_loop tile quadkey int4 xmin ymin xmax ymax 1"

text \<open>
  The loop goes on after a zoom when the library calls return there, the
  integer-quadkey span is below \<open>MAX_PARTITIONS\<close> and the zoom is not
  \<open>MAX_QUADKEY_ZOOM\<close>.
\<close>

definition goes_on ::
  "('c \<Rightarrow> 'c \<Rightarrow> int \<Rightarrow> exn + 't) \<Rightarrow> ('t \<Rightarrow> exn + 'k) \<Rightarrow> ('k \<Rightarrow> exn + int)
    \<Rightarrow> 'c \<Rightarrow> 'c \<Rightarrow> 'c \<Rightarrow> 'c \<Rightarrow> int \<Rightarrow> bool" where
  "goes_on tile quadkey int4 xmin ymin xmax ymax z =
     (case integer_quadkeys tile quadkey int4 xmin ymin xmax ymax z of
        Inl e \<Rightarrow> False
      | Inr (lo, hi) \<Rightarrow> hi - lo < MAX_PARTITIONS \<and> z \<noteq> MAX_QUADKEY_ZOOM)"

text \<open>
  Stand-ins for the library calls, on which the loop is run. The tile of a
  point is a single number that doubles with each zoom, and is its own
  quadkey and integer quadkey; as in the library, there is no tile at the
  latitudes 90 and -90.
\<close>

definition example_tile :: "int \<Rightarrow> int \<Rightarrow> int \<Rightarrow> exn + int" where
  "example_tile lng lat zoom =
     (if lat \<le> - 90 \<or> 90 \<le> lat then Inl InvalidLatitudeError
      else Inr (lng * 2 ^ nat zoom))"

definition example_quadkey :: "int \<Rightarrow> exn + int" where
  "example_quadkey t = Inr t"

definition example_int4 :: "int \<Rightarrow> exn + int" where
  "example_int4 k = Inr k"

section \<open>The catalog repository of variables (repository/variable\_repo.py)\<close>

text \<open>
  \<open>RepoClient.get_variables\<close> is called either with no argument or with a
  field name and a value. The client is a parameter: a function from the
  call's arguments to the rows it returns. \<open>Variable\<close> and \<open>Variables\<close> are
  the entity classes, which wrap a row and a list of rows.
\<close>

datatype 'v client_args = NoFilter | FilterBy string 'v

datatype 'r variable = Variable 'r

datatype 'r variables = Variables "'r list"

definition from_repo :: "'r \<Rightarrow> 'r" where
  "from_repo row = row"

definition to_variable :: "'r \<Rightarrow> 'r variable" where
  "to_variable result = Variable result"

definition to_variables :: "'r list \<Rightarrow> 'r variables option" where
  "to_variables results =
     (if length results = 0 then None else Some (Variables (map from_repo results)))"

definition get_all :: "('v client_args \<Rightarrow> 'r list) \<Rightarrow> 'r variables option" where
  "get_all get_variables = to_variables (get_variables NoFilter)"

definition get_by_id :: "('v client_args \<Rightarrow> 'r list) \<Rightarrow> 'v \<Rightarrow> exn + 'r variable" where
  "get_by_id get_variables variable_id =
     (let result = get_variables (FilterBy ''id'' variable_id)
      in if length result = 0
         then Inl (DiscoveryException
                (''The id does not correspond with any existing variable in the catalog. ''
                 @ ''You can check the full list of available variables with Variables.get_all()''))
         else (let data = from_repo (result ! 0) in Inr (to_variable data)))"

definition get_by_dataset :: "('v client_args \<Rightarrow> 'r list) \<Rightarrow> 'v \<Rightarrow> 'r variables option" where
  "get_by_dataset get_variables dataset_id =
     to_variables (get_variables (FilterBy ''dataset_id'' dataset_id))"

definition get_by_variable_group :: "('v client_args \<Rightarrow> 'r list) \<Rightarrow> 'v \<Rightarrow> 'r variables option" where
  "get_by_variable_group get_variables variable_group_id =
     to_variables (get_variables (FilterBy ''variable_group_id'' variable_group_id))"

text \<open>A client used to exercise the repository on concrete rows.\<close>

definition example_client :: "string client_args \<Rightarrow> string list" where
  "example_client a =
     (case a of NoFilter \<Rightarrow> [''v1'', ''v2'']
      | FilterBy field v \<Rightarrow> (if field = ''id'' then [v] else [''v1'']))"

section \<open>The geocoding service (data/services/geocoding.py)\<close>

subsection \<open>Data\<close>

text \<open>
  A row of a dataframe, of a table or of a query result maps column names to
  values; \<open>row.get(k)\<close> is \<open>None\<close> for a column that is not there.
\<close>

type_synonym row = "(string \<times> pyval) list"

definition row_get :: "row \<Rightarrow> string \<Rightarrow> pyval" where
  "row_get r k = (case map_of r k of None \<Rightarrow> PNone | Some v \<Rightarrow> v)"

record dataframe =
  df_columns :: "string list"
  df_rows :: "row list"

text \<open>
  The \<open>source\<close> argument of \<open>geocode\<close> is a string (a table name or a SQL
  query) or a dataframe, as its docstring says.
\<close>

datatype source = Str string | DataFrame dataframe

text \<open>
  \<open>city\<close>, \<open>state\<close> and \<open>country\<close> are \<open>None\<close>, a dictionary with a \<open>column\<close>
  key, a dictionary with a \<open>value\<close> key, or a string.
\<close>

datatype gc_arg = ArgColumn string | ArgValue string | ArgStr string

type_synonym status = "(string \<times> string) list"

text \<open>
  The result of a SQL API call is a dictionary with the keys \<open>rows\<close> and
  \<open>total_rows\<close>; \<open>res_total_rows = None\<close> stands for a dictionary without
  the key \<open>total_rows\<close>. A call that returns \<open>None\<close> or an empty
  dictionary, both falsy, is the value \<open>None\<close> of \<open>qresult option\<close>.
\<close>

record qresult =
  res_total_rows :: "int option"
  res_rows :: "row list"

text \<open>The \<open>summary\<close> and \<open>output\<close> dictionaries of \<open>_geocode\<close>.\<close>

type_synonym summary = "pyval \<rightharpoonup> pyval"

type_synonym output_dict = "string \<rightharpoonup> pyval"

text \<open>The named tuple \<open>(data, metadata)\<close> that \<open>Service.result\<close> builds.\<close>

record gc_result =
  data :: "dataframe option"
  metadata :: output_dict

text \<open>
  Modelled from the spec: the constant \<open>geocoding_constants.HASH_COLUMN\<close>,
  which is defined outside geocoding.py. It names the column that holds the
  content hash of a geocoded row; the spec and the docstring of the class
  call that column \<open>carto_geocode_hash\<close>.
\<close>

definition HASH_COLUMN :: string where
  "HASH_COLUMN = ''carto_geocode_hash''"

subsection \<open>SQL statements and requests\<close>

text \<open>
  The hash expression over street, city, state and country that
  \<open>geocoding_utils.hash_expr\<close> builds for the rows of a table.
\<close>

datatype hash_expr =
  HashExpr (he_street: string) (he_city: "string option") (he_state: "string option")
    (he_country: "string option") (he_table_prefix: string)

text \<open>
  The service sends templated SQL. A statement is the template together with
  the values that fill it in. The first five are built by functions of
  \<open>geocoding_utils\<close>, named here after them; the last two are written out in
  geocoding.py:
  \<^item> \<open>AlterTableAddColumns table cols\<close> is
    \<^verbatim>\<open>ALTER TABLE {table} ADD COLUMN IF NOT EXISTS {name} {type}, ...\<close>
  \<^item> \<open>UpdateFrom tmp_table table hash hash_expr\<close> is
    \<^verbatim>\<open>UPDATE {tmp_table} SET {hash}={table}.{hash}, the_geom={table}.the_geom
      FROM {table} WHERE {hash_expr}={table}.{hash}\<close>
\<close>

datatype sql =
    ExistsColumnQuery string string
  | FirstTimeSummaryQuery string string "string option" "string option" "string option"
  | PriorSummaryQuery string string "string option" "string option" "string option"
  | PosteriorSummaryQuery string
  | GeocodeQuery string string "string option" "string option" "string option" status
  | AlterTableAddColumns string "(string \<times> string) list"
  | UpdateFrom string string string hash_expr

text \<open>
  Everything the service asks of its surroundings: the functions of
  \<open>cartoframes.io.carto\<close>, the source manager's column names, a fresh
  temporary table name, the two ways of executing SQL, and entering and
  leaving the \<open>with TableGeocodingLock(...)\<close> block.

  Modelled from the spec: the class \<open>TableGeocodingLock\<close>, which is defined
  outside geocoding.py. The spec names it as the lock of the table that is
  geocoded. \<open>_geocode\<close> uses it as a context manager: entering the block
  asks for the lock of the table and yields whether it was obtained
  (\<open>LockEnter\<close>, answered by \<open>lock_answer\<close>), and leaving the block, in
  whatever way, gives it back (\<open>LockExit\<close>).
\<close>

datatype request =
    HasTable string
  | GetColumnNames source
  | NewTemporaryTableName
  | ToCarto source string "string option"
  | CopyTable string string string
  | CreateTableFromQuery string string string
  | DeleteTable string
  | UpdateTable string string string
  | ReadCarto string
  | ExecuteQuery sql
  | ExecuteLongRunningQuery sql
  | LockEnter string
  | LockExit string

type_synonym trace = "request list"

text \<open>
  The surroundings answer a request. An answer may depend on everything that
  was requested before (the remote tables change as the service works), so
  each answer takes the trace of the earlier requests. A long-running query
  either returns or raises an exception, of which the service reads the
  message. The other requests are taken to return: the source does not guard
  them, and an exception of theirs would end the call.
\<close>

record env =
  has_table_answer :: "trace \<Rightarrow> string \<Rightarrow> bool"
  column_names_answer :: "trace \<Rightarrow> source \<Rightarrow> string list"
  temporary_name_answer :: "trace \<Rightarrow> string"
  query_answer :: "trace \<Rightarrow> sql \<Rightarrow> qresult option"
  long_query_answer :: "trace \<Rightarrow> sql \<Rightarrow> string + qresult option"
  lock_answer :: "trace \<Rightarrow> string \<Rightarrow> bool"
  read_carto_answer :: "trace \<Rightarrow> string \<Rightarrow> dataframe"

text \<open>
  The functions and constants of \<open>geocoding_utils\<close>, \<open>geocoding_constants\<close>,
  the source manager and the \<open>re\<close> module that geocoding.py calls and that are
  not part of it. They are parameters of the model:
  \<^item> \<open>set_pre_summary_info\<close> and \<open>set_post_summary_info\<close> update \<open>output\<close> in
    place; here they return the updated dictionary;
  \<^item> \<open>column_or_value_arg\<close> may raise;
  \<^item> \<open>geocode_query_columns\<close> is the second component, \<open>add_columns\<close>, of
    what \<open>geocode_query\<close> returns;
  \<^item> \<open>search_quota\<close> is the \<open>re.search\<close> for the remaining quota and the
    estimated cost in an error message;
  \<^item> \<open>is_sql_query\<close> tells a query from a table name.
\<close>

record helpers =
  set_pre_summary_info :: "summary \<Rightarrow> output_dict \<Rightarrow> output_dict"
  set_post_summary_info :: "summary \<Rightarrow> qresult option \<Rightarrow> output_dict \<Rightarrow> output_dict"
  column_or_value_arg :: "gc_arg option \<Rightarrow> string list \<Rightarrow> exn + string option"
  geocode_query_columns ::
    "string \<Rightarrow> string \<Rightarrow> string option \<Rightarrow> string option \<Rightarrow> string option \<Rightarrow> status
      \<Rightarrow> (string \<times> string) list"
  search_quota :: "string \<Rightarrow> (int \<times> int) option"
  is_sql_query :: "string \<Rightarrow> bool"
  DEFAULT_STATUS :: status

text \<open>
  Modelled from the spec: the methods \<open>is_table\<close>, \<open>is_query\<close> and
  \<open>is_dataframe\<close> of \<open>SourceManager\<close>, which is defined outside geocoding.py.
  By the docstring of \<open>geocode\<close> a source is a table, a SQL query or a
  dataframe: a string is a query or else the name of a table, and what is
  no string is a dataframe.
\<close>

definition is_table :: "helpers \<Rightarrow> source \<Rightarrow> bool" where
  "is_table h src = (case src of Str s \<Rightarrow> \<not> is_sql_query h s | DataFrame _ \<Rightarrow> False)"

definition is_query :: "helpers \<Rightarrow> source \<Rightarrow> bool" where
  "is_query h src = (case src of Str s \<Rightarrow> is_sql_query h s | DataFrame _ \<Rightarrow> False)"

definition is_dataframe :: "source \<Rightarrow> bool" where
  "is_dataframe src = (case src of Str _ \<Rightarrow> False | DataFrame _ \<Rightarrow> True)"

text \<open>The source where it is a string.\<close>

definition source_string :: "source \<Rightarrow> string" where
  "source_string src = (case src of Str s \<Rightarrow> s | DataFrame _ \<Rightarrow> [])"

text \<open>\<open>if table_name:\<close> is false for \<open>None\<close> and for the empty string.\<close>

definition truthy :: "string option \<Rightarrow> bool" where
  "truthy name = (case name of None \<Rightarrow> False | Some s \<Rightarrow> s \<noteq> [])"

subsection \<open>\<open>_execute_prior_summary\<close> and \<open>_geocode\<close>\<close>

text \<open>\<open>not result or result.get('total_rows', 0) == 0\<close>\<close>

definition no_rows :: "qresult option \<Rightarrow> bool" where
  "no_rows result =
     (case result of
        None \<Rightarrow> True
      | Some r \<Rightarrow> (case res_total_rows r of None \<Rightarrow> 0 | Some n \<Rightarrow> n) = 0)"

definition execute_prior_summary ::
  "env \<Rightarrow> trace \<Rightarrow> string \<Rightarrow> string \<Rightarrow> string option \<Rightarrow> string option \<Rightarrow> string option
    \<Rightarrow> trace \<times> qresult option" where
  "execute_prior_summary env tr dataset_name street city state country =
     (let sql = ExistsColumnQuery dataset_name HASH_COLUMN;
          result = query_answer env tr sql;
          tr1 = tr @ [ExecuteQuery sql];
          sql = (if no_rows result
                 then FirstTimeSummaryQuery dataset_name street city state country
                 else PriorSummaryQuery dataset_name street city state country)
      in (tr1 @ [ExecuteQuery sql], query_answer env tr1 sql))"

text \<open>The six counters, all zero, that \<open>_geocode\<close> starts from.\<close>

definition gc_states :: "string list" where
  "gc_states = [''new_geocoded'', ''new_nongeocoded'',
                ''changed_geocoded'', ''changed_nongeocoded'',
                ''previously_geocoded'', ''previously_nongeocoded'']"

definition initial_summary :: summary where
  "initial_summary = map_of (map (\<lambda>s. (PStr s, PInt 0)) gc_states)"

text \<open>
  \<open>if result: for row in result.get('rows'): summary[row.get('gc_state')] =
  row.get('count')\<close>
\<close>

definition count_row :: "row \<Rightarrow> summary \<Rightarrow> summary" where
  "count_row row summary =
     (let gc_state = row_get row ''gc_state'';
          count = row_get row ''count''
      in summary(gc_state \<mapsto> count))"

definition read_summary :: "qresult option \<Rightarrow> summary \<Rightarrow> summary" where
  "read_summary result summary =
     (case result of
        None \<Rightarrow> summary
      | Some r \<Rightarrow> fold count_row (res_rows r) summary)"

text \<open>
  \<open>output['required_quota'] > 0\<close>: a missing key raises KeyError, a value
  that is no number raises TypeError, and \<open>True > 0\<close> holds.
\<close>

definition required_quota_positive :: "output_dict \<Rightarrow> exn + bool" where
  "required_quota_positive output =
     (case output ''required_quota'' of
        None \<Rightarrow> Inl (KeyError ''required_quota'')
      | Some (PInt n) \<Rightarrow> Inr (n > 0)
      | Some (PBool b) \<Rightarrow> Inr b
      | Some _ \<Rightarrow> Inl TypeError)"

text \<open>The \<open>except Exception as err\<close> branch around the long-running query.\<close>

definition record_error :: "helpers \<Rightarrow> string \<Rightarrow> output_dict \<Rightarrow> output_dict" where
  "record_error h msg output =
     (let output = output(''error'' \<mapsto> PStr msg)
      in case search_quota h msg of
           None \<Rightarrow> output
         | Some (remaining, cost) \<Rightarrow>
             output(''remaining_quota'' \<mapsto> PInt remaining, ''estimated_cost'' \<mapsto> PInt cost))"

text \<open>
  \<open>_geocode\<close>. It returns the trace, extended by its own requests, and either
  the exception it raises or the \<open>output\<close> dictionary. The block of the
  \<open>with\<close> statement is left, and \<open>LockExit\<close> requested, before the posterior
  summary query.
\<close>

definition internal_geocode ::
  "helpers \<Rightarrow> env \<Rightarrow> trace \<Rightarrow> string \<Rightarrow> string \<Rightarrow> string option \<Rightarrow> string option
    \<Rightarrow> string option \<Rightarrow> status \<Rightarrow> bool \<Rightarrow> trace \<times> (exn + output_dict)" where
  "internal_geocode h env tr table_name street city state country status dry_run =
     (let output = Map.empty;
          summary = initial_summary;
          (tr, result) = execute_prior_summary env tr table_name street city state country;
          summary = read_summary result summary;
          output = set_pre_summary_info h summary output
      in case required_quota_positive output of
           Inl e \<Rightarrow> (tr, Inl e)
         | Inr positive \<Rightarrow>
             if positive \<and> \<not> dry_run then
               (let locked = lock_answer env tr table_name;
                    tr = tr @ [LockEnter table_name]
                in if \<not> locked then
                     (tr @ [LockExit table_name],
                      Inr (output(''error'' \<mapsto> PStr ''The table is already being geocoded'',
                                  ''aborted'' \<mapsto> PBool True)))
                   else
                     (let sql = GeocodeQuery table_name street city state country status;
                          add_columns =
                            geocode_query_columns h table_name street city state country status
                              @ [(HASH_COLUMN, ''text'')];
                          tr = tr @ [ExecuteQuery (AlterTableAddColumns table_name add_columns)];
                          answer = long_query_answer env tr sql;
                          tr = tr @ [ExecuteLongRunningQuery sql, LockExit table_name]
                      in case answer of
                           Inl msg \<Rightarrow> (tr, Inr (record_error h msg output))
                         | Inr _ \<Rightarrow>
                             (let sql = PosteriorSummaryQuery table_name;
                                  result = query_answer env tr sql
                              in (tr @ [ExecuteQuery sql],
                                  Inr (set_post_summary_info h summary result output)))))
             else (tr, Inr output))"

subsection \<open>\<open>_table_for_geocoding\<close>, \<open>geocode\<close> and \<open>_cached_geocode\<close>\<close>

definition table_for_geocoding ::
  "helpers \<Rightarrow> env \<Rightarrow> trace \<Rightarrow> source \<Rightarrow> string option \<Rightarrow> string \<Rightarrow> bool
    \<Rightarrow> trace \<times> string \<times> bool" where
  "table_for_geocoding h env tr src table_name if_exists dry_run =
     (if is_table h src then
        (if truthy table_name
         then (tr @ [CopyTable (source_string src) (the table_name) if_exists],
               the table_name, False)
         else (tr, source_string src, False))
      else if is_query h src then
        (if \<not> truthy table_name
         then (let input_table_name = temporary_name_answer env tr
               in (tr @ [NewTemporaryTableName,
                         CreateTableFromQuery (source_string src) input_table_name if_exists],
                   input_table_name, True))
         else (tr @ [CreateTableFromQuery (source_string src) (the table_name) if_exists],
               the table_name, False))
      else
        (if \<not> truthy table_name
         then (let input_table_name = temporary_name_answer env tr
               in (tr @ [NewTemporaryTableName,
                         ToCarto src input_table_name (Some if_exists)],
                   input_table_name, True))
         else (tr @ [ToCarto src (the table_name) (Some if_exists)],
               the table_name, False)))"

text \<open>
  The last branch is the source's \<open>elif self._source_manager.is_dataframe()\<close>:
  a source that is no table and no query is a dataframe.
\<close>

text \<open>
  The three calls of \<open>column_or_value_arg\<close> in a list comprehension: the
  first that raises ends it.
\<close>

definition column_or_value_args ::
  "helpers \<Rightarrow> gc_arg option \<Rightarrow> gc_arg option \<Rightarrow> gc_arg option \<Rightarrow> string list
    \<Rightarrow> exn + (string option \<times> string option \<times> string option)" where
  "column_or_value_args h city state country columns =
     (case column_or_value_arg h city columns of Inl e \<Rightarrow> Inl e | Inr city' \<Rightarrow>
     (case column_or_value_arg h state columns of Inl e \<Rightarrow> Inl e | Inr state' \<Rightarrow>
     (case column_or_value_arg h country columns of Inl e \<Rightarrow> Inl e | Inr country' \<Rightarrow>
        Inr (city', state', country'))))"

text \<open>
  \<open>geocode\<close> from the line after the \<open>if cached:\<close> block to its end, with
  \<open>self.columns\<close> as the argument \<open>columns\<close>.
\<close>

definition geocode_not_cached ::
  "helpers \<Rightarrow> env \<Rightarrow> trace \<Rightarrow> string list \<Rightarrow> source \<Rightarrow> string \<Rightarrow> gc_arg option
    \<Rightarrow> gc_arg option \<Rightarrow> gc_arg option \<Rightarrow> status \<Rightarrow> string option \<Rightarrow> string \<Rightarrow> bool
    \<Rightarrow> trace \<times> (exn + gc_result)" where
  "geocode_not_cached h env tr columns src street city state country status table_name
       if_exists dry_run =
     (case column_or_value_args h city state country columns of
        Inl e \<Rightarrow> (tr, Inl e)
      | Inr (city, state, country) \<Rightarrow>
          (let (tr, input_table_name, is_temporary) =
                 table_for_geocoding h env tr src table_name if_exists dry_run;
               (tr, r) = internal_geocode h env tr input_table_name street city state country
                           status dry_run
           in case r of
                Inl e \<Rightarrow> (tr, Inl e)
              | Inr md \<Rightarrow>
                  if dry_run then (tr, Inr \<lparr>data = None, metadata = md\<rparr>)
                  else
                    (let cdf = read_carto_answer env tr input_table_name;
                         tr = tr @ [ReadCarto input_table_name];
                         tr = (if is_temporary then tr @ [DeleteTable input_table_name] else tr)
                     in (tr, Inr \<lparr>data = Some cdf, metadata = md\<rparr>))))"

text \<open>
  A call \<open>self.geocode(...)\<close> that passes no \<open>cached\<close> argument, as the two
  calls inside \<open>_cached_geocode\<close> do: the source manager is asked for the
  column names, the \<open>if cached:\<close> block is skipped and the rest runs.
\<close>

definition geocode_call ::
  "helpers \<Rightarrow> env \<Rightarrow> trace \<Rightarrow> source \<Rightarrow> string \<Rightarrow> gc_arg option \<Rightarrow> gc_arg option
    \<Rightarrow> gc_arg option \<Rightarrow> status \<Rightarrow> string option \<Rightarrow> string \<Rightarrow> bool
    \<Rightarrow> trace \<times> (exn + gc_result)" where
  "geocode_call h env tr src street city state country status table_name if_exists dry_run =
     (let columns = column_names_answer env tr src;
          tr = tr @ [GetColumnNames src]
      in geocode_not_cached h env tr columns src street city state country status table_name
           if_exists dry_run)"

definition cached_geocode ::
  "helpers \<Rightarrow> env \<Rightarrow> trace \<Rightarrow> string list \<Rightarrow> source \<Rightarrow> string \<Rightarrow> string \<Rightarrow> gc_arg option
    \<Rightarrow> gc_arg option \<Rightarrow> gc_arg option \<Rightarrow> bool \<Rightarrow> trace \<times> (exn + gc_result)" where
  "cached_geocode h env tr columns src table_name street city state country dry_run =
     (let has_cache = has_table_answer env tr table_name;
          tr = tr @ [HasTable table_name];
          cache_columns = (if has_cache then column_names_answer env tr (Str table_name) else []);
          tr = (if has_cache then tr @ [GetColumnNames (Str table_name)] else tr)
      in if has_cache \<and> HASH_COLUMN \<notin> set cache_columns then
           (tr, Inl (ValueError (''Cache table '' @ table_name
                                  @ '' exists but is not a valid geocode table'')))
         else if HASH_COLUMN \<in> set columns \<or> \<not> has_cache then
           geocode_call h env tr src street city state country (DEFAULT_STATUS h)
             (Some table_name) ''replace'' dry_run
         else
           (let tmp_table_name = temporary_name_answer env tr;
                tr = tr @ [NewTemporaryTableName]
            in if is_table h src then
                 (tr, Inl (ValueError ''cached geocoding cannot be used with tables''))
               else
                 (let tr = tr @ [ToCarto src tmp_table_name None,
                                 ExecuteQuery
                                   (AlterTableAddColumns tmp_table_name [(HASH_COLUMN, ''text'')])]
                  in case column_or_value_args h city state country columns of
                       Inl e \<Rightarrow> (tr, Inl e)
                     | Inr (hcity, hstate, hcountry) \<Rightarrow>
                         (let hash_expr = HashExpr street hcity hstate hcountry tmp_table_name;
                              tr = tr @ [ExecuteQuery
                                           (UpdateFrom tmp_table_name table_name HASH_COLUMN
                                              hash_expr),
                                         DeleteTable table_name,
                                         UpdateTable tmp_table_name table_name ''private'']
                          in case geocode_call h env tr (Str table_name) street city state
                                    country (DEFAULT_STATUS h) None ''fail'' dry_run of
                               (tr, Inl e) \<Rightarrow> (tr, Inl e)
                             | (tr, Inr r) \<Rightarrow>
                                 (tr, Inr \<lparr>data = data r, metadata = metadata r\<rparr>)))))"

definition geocode ::
  "helpers \<Rightarrow> env \<Rightarrow> trace \<Rightarrow> source \<Rightarrow> string \<Rightarrow> gc_arg option \<Rightarrow> gc_arg option
    \<Rightarrow> gc_arg option \<Rightarrow> status \<Rightarrow> string option \<Rightarrow> string \<Rightarrow> bool \<Rightarrow> bool
    \<Rightarrow> trace \<times> (exn + gc_result)" where
  "geocode h env tr src street city state country status table_name if_exists dry_run cached =
     (let columns = column_names_answer env tr src;
          tr = tr @ [GetColumnNames src]
      in if cached then
           (if \<not> truthy table_name
            then (tr, Inl (ValueError ''There is no \"table_name\" to cache the data''))
            else cached_geocode h env tr columns src (the table_name) street city state country
                   dry_run)
         else geocode_not_cached h env tr columns src street city state country status
                table_name if_exists dry_run)"

subsection \<open>Notions for stating the properties of the geocoding service\<close>

text \<open>
  The counters that \<open>_geocode\<close> holds after the prior summary, and the
  \<open>output\<close> dictionary that \<open>set_pre_summary_info\<close> makes of them.
\<close>

definition prior_summary ::
  "env \<Rightarrow> trace \<Rightarrow> string \<Rightarrow> string \<Rightarrow> string option \<Rightarrow> string option \<Rightarrow> string option
    \<Rightarrow> summary" where
  "prior_summary env tr table_name street city state country =
     read_summary (snd (execute_prior_summary env tr table_name street city state country))
       initial_summary"

definition prior_output ::
  "helpers \<Rightarrow> env \<Rightarrow> trace \<Rightarrow> string \<Rightarrow> string \<Rightarrow> string option \<Rightarrow> string option
    \<Rightarrow> string option \<Rightarrow> output_dict" where
  "prior_output h env tr table_name street city state country =
     set_pre_summary_info h (prior_summary env tr table_name street city state country)
       Map.empty"

text \<open>
  The requests by which a table is geocoded: taking the table's geocoding
  lock and running the long-running geocoding query.
\<close>

fun is_geocoding_request :: "request \<Rightarrow> bool" where
  "is_geocoding_request (LockEnter _) = True"
| "is_geocoding_request (ExecuteLongRunningQuery _) = True"
| "is_geocoding_request _ = False"

text \<open>
  \<open>locked_runs env t hist held new\<close>: in the requests \<open>new\<close>, made after the
  requests \<open>hist\<close>, every long-running query is made while the lock of the
  table \<open>t\<close> is held, where \<open>held\<close> tells whether it is held at the start. The
  lock is held from a \<open>LockEnter t\<close> that is answered \<open>True\<close> to the next
  \<open>LockExit t\<close>.
\<close>

fun locked_runs :: "env \<Rightarrow> string \<Rightarrow> trace \<Rightarrow> bool \<Rightarrow> trace \<Rightarrow> bool" where
  "locked_runs env t hist held [] = True"
| "locked_runs env t hist held (LockEnter n # new) =
     locked_runs env t (hist @ [LockEnter n]) (if n = t then lock_answer env hist t else held) new"
| "locked_runs env t hist held (LockExit n # new) =
     locked_runs env t (hist @ [LockExit n]) (if n = t then False else held) new"
| "locked_runs env t hist held (ExecuteLongRunningQuery q # new) =
     (held \<and> locked_runs env t (hist @ [ExecuteLongRunningQuery q]) held new)"
| "locked_runs env t hist held (rq # new) = locked_runs env t (hist @ [rq]) held new"

text \<open>The uploads of a trace: what was passed to \<open>to_carto\<close>, and to which table.\<close>

fun uploads :: "trace \<Rightarrow> (source \<times> string) list" where
  "uploads [] = []"
| "uploads (ToCarto src name _ # tr) = (src, name) # uploads tr"
| "uploads (_ # tr) = uploads tr"

text \<open>The requests that execute an \<open>UPDATE ... FROM\<close> statement.\<close>

fun is_update_from :: "request \<Rightarrow> bool" where
  "is_update_from (ExecuteQuery (UpdateFrom _ _ _ _)) = True"
| "is_update_from _ = False"

text \<open>
  What the database does with the \<open>UPDATE ... FROM\<close> statement of
  \<open>_cached_geocode\<close>. The statement joins each row of the temporary table
  with the rows of the cache table whose stored hash equals the row's hash
  expression (a \<open>NULL\<close> equals nothing) and sets the row's hash and
  \<open>the_geom\<close> from a joined row, here the first; a row that joins with none
  is left as it is. The hash expression is evaluated by the database: its
  value on a row is the parameter \<open>eval\<close>.
\<close>

definition joins :: "(hash_expr \<Rightarrow> row \<Rightarrow> pyval) \<Rightarrow> hash_expr \<Rightarrow> string \<Rightarrow> row \<Rightarrow> row \<Rightarrow> bool" where
  "joins eval hexpr hash r c = (row_get c hash \<noteq> PNone \<and> eval hexpr r = row_get c hash)"





text \<open>
  The rows of a dataframe whose content hash differs from every hash stored
  in the cache table.
\<close>

definition changed_rows ::
  "(hash_expr \<Rightarrow> row \<Rightarrow> pyval) \<Rightarrow> hash_expr \<Rightarrow> dataframe \<Rightarrow> row list \<Rightarrow> row list" where
  "changed_rows eval hexpr df table_rows =
     filter (\<lambda>r. \<not> list_ex (joins eval hexpr HASH_COLUMN r) table_rows) (df_rows df)"

text \<open>The rows that a trace uploads, from the dataframes passed to \<open>to_carto\<close>.\<close>

definition uploaded_rows :: "trace \<Rightarrow> row list" where
  "uploaded_rows tr =
     concat (map (\<lambda>(src, name). case src of DataFrame df \<Rightarrow> df_rows df | Str _ \<Rightarrow> [])
               (uploads tr))"

text \<open>
  The outcome of a dry run: an exception, or a result without data whose
  metadata has the required quota.
\<close>

definition dry_outcome :: "exn + gc_result \<Rightarrow> bool" where
  "dry_outcome r =
     (case r of
        Inl e \<Rightarrow> True
      | Inr res \<Rightarrow> data res = None \<and> metadata res ''required_quota'' \<noteq> None)"

subsection \<open>An example run\<close>

text \<open>
  Stand-ins for the helper functions and for the surroundings, on which the
  model is run. A dataframe with one address is geocoded into the cache
  table \<open>cache\<close>, which already holds that address with its geometry and
  hash; the hash of a row is taken to be its street itself.
\<close>

definition example_helpers :: helpers where
  "example_helpers =
     \<lparr>set_pre_summary_info = (\<lambda>summary output.
          output(''required_quota'' \<mapsto>
            (case (summary (PStr ''new_geocoded''), summary (PStr ''changed_geocoded'')) of
               (Some (PInt a), Some (PInt b)) \<Rightarrow> PInt (a + b)
             | _ \<Rightarrow> PInt 0))),
       set_post_summary_info = (\<lambda>summary result output.
          output(''final_records_with_geometry'' \<mapsto>
            (case result of
               Some r \<Rightarrow> (case res_rows r of [] \<Rightarrow> PNone | row # _ \<Rightarrow> row_get row ''geocoded'')
             | None \<Rightarrow> PNone))),
       column_or_value_arg = (\<lambda>arg columns.
          case arg of
            None \<Rightarrow> Inr None
          | Some (ArgValue v) \<Rightarrow> Inr (Some v)
          | Some (ArgColumn c) \<Rightarrow>
              if c \<in> set columns then Inr (Some c) else Inl (ValueError ''Invalid column name'')
          | Some (ArgStr c) \<Rightarrow>
              if c \<in> set columns then Inr (Some c) else Inl (ValueError ''Invalid column name'')),
       geocode_query_columns = (\<lambda>table_name street city state country status.
          map (\<lambda>(attribute, column). (column, ''numeric'')) status),
       search_quota = (\<lambda>msg. None),
       is_sql_query = (\<lambda>s. take 6 s = ''SELECT''),
       DEFAULT_STATUS = [(''relevance'', ''gc_status_rel'')]\<rparr>"

definition example_dataframe :: dataframe where
  "example_dataframe =
     \<lparr>df_columns = [''address''], df_rows = [[(''address'', PStr ''Gran Via 46'')]]\<rparr>"

definition example_cache_rows :: "row list" where
  "example_cache_rows =
     [[(''address'', PStr ''Gran Via 46''), (''the_geom'', PStr ''POINT(-3.70 40.42)''),
       (''carto_geocode_hash'', PStr ''Gran Via 46'')]]"



definition example_eval :: "hash_expr \<Rightarrow> row \<Rightarrow> pyval" where
  "example_eval hexpr r = row_get r (he_street hexpr)"

text \<open>
  The surroundings: the table \<open>cache\<close> exists and has the hash column; the
  prior summary counts \<open>new\<close> rows to geocode.
\<close>

definition example_env :: "int \<Rightarrow> env" where
  "example_env new =
     \<lparr>has_table_answer = (\<lambda>tr name. name = ''cache''),
       column_names_answer = (\<lambda>tr src.
          case src of
            Str s \<Rightarrow> [''address'', ''the_geom'', ''carto_geocode_hash'']
          | DataFrame df \<Rightarrow> df_columns df),
       temporary_name_answer = (\<lambda>tr. ''tmp_1''),
       query_answer = (\<lambda>tr q.
          case q of
            ExistsColumnQuery t c \<Rightarrow> Some \<lparr>res_total_rows = Some 1, res_rows = [[]]\<rparr>
          | PriorSummaryQuery t s c st co \<Rightarrow>
              Some \<lparr>res_total_rows = Some 2,
                    res_rows = [[(''gc_state'', PStr ''new_geocoded''), (''count'', PInt new)],
                                [(''gc_state'', PStr ''previously_geocoded''),
                                 (''count'', PInt 1)]]\<rparr>
          | PosteriorSummaryQuery t \<Rightarrow>
              Some \<lparr>res_total_rows = Some 1,
                    res_rows = [[(''geocoded'', PInt (new + 1)), (''nongeocoded'', PInt 0)]]\<rparr>
          | _ \<Rightarrow> None),
       long_query_answer = (\<lambda>tr q. Inr None),
       lock_answer = (\<lambda>tr t. True),
       read_carto_answer = (\<lambda>tr name.
          \<lparr>df_columns = [''address'', ''the_geom'', ''carto_geocode_hash''],
           df_rows = example_cache_rows\<rparr>)\<rparr>"

text \<open>
  Surroundings in which the table has not been geocoded before: the query for
  the hash column is answered with no row, and the first-time summary
  counts two rows to geocode.
\<close>

definition first_time_env :: env where
  "first_time_env =
     (example_env 0)
       \<lparr>query_answer := (\<lambda>tr q.
          case q of
            ExistsColumnQuery t c \<Rightarrow> Some \<lparr>res_total_rows = Some 0, res_rows = []\<rparr>
          | FirstTimeSummaryQuery t s c st co \<Rightarrow>
              Some \<lparr>res_total_rows = Some 1,
                    res_rows = [[(''gc_state'', PStr ''new_geocoded''), (''count'', PInt 2)]]\<rparr>
          | PosteriorSummaryQuery t \<Rightarrow>
              Some \<lparr>res_total_rows = Some 1,
                    res_rows = [[(''geocoded'', PInt 2), (''nongeocoded'', PInt 0)]]\<rparr>
          | _ \<Rightarrow> None)\<rparr>"

lemmas example_defs =
  example_env_def example_helpers_def execute_prior_summary_def read_summary_def count_row_def
  initial_summary_def gc_states_def required_quota_positive_def no_rows_def row_get_def
  prior_output_def prior_summary_def HASH_COLUMN_def

section \<open>Properties of the tileset generator\<close>

lemma format_insert_four:
  "format_insert pt [x0, y0, x1, y1] zs d qz opts out =
     Inr \<lparr>q_prepare_table = pt, q_xmin = x0, q_ymin = y0, q_xmax = x1, q_ymax = y1,
          q_zooms = zs, q_depth = d, q_quadkey_zoom = qz, q_tile_extent = 4096,
          q_tile_buffer = 256, q_options = opts, q_output_table = out\<rparr>"
  by (simp add: format_insert_def bbox_get_def TILE_EXTENT_def TILE_BUFFER_def)

lemma for_each_zoom_total:
  "for_each_zoom (\<lambda>z. Inr (f z)) zs = Inr (map f zs)"
  by (induction zs) simp_all

lemma zoom_bands_partition:
  "mset (filter (\<lambda>z. z < MIN_MEDIUM_LEVEL_ZOOM) zs)
     + mset (filter (\<lambda>z. z \<ge> MIN_MEDIUM_LEVEL_ZOOM \<and> z \<le> MAX_MEDIUM_LEVEL_ZOOM) zs)
     + mset (filter (\<lambda>z. z > MAX_MEDIUM_LEVEL_ZOOM) zs) = mset zs"
  by (induction zs) (auto simp: MIN_MEDIUM_LEVEL_ZOOM_def MAX_MEDIUM_LEVEL_ZOOM_def)

text \<open>
  Claim C7, as the code has it. With a four-element bounding box, the three
  insert methods split the zooms in use into three disjoint bands that
  together are the whole list. The zooms in use are the requested ones when
  the request is a list that is not empty, and the default list
  \<open>[0, 4, 8, 12, 14]\<close> when \<open>zooms\<close> is \<open>None\<close> or the empty list. The zooms
  below 9 go into one low-level query, which is not executed when there are
  none; each zoom from 9 to 11 gets its own medium-level query, in list
  order; each zoom above 11 gets its own high-level query, in list order,
  on zoom 11 with the depth \<open>zoom - 11\<close>.
\<close>

theorem tileset_zoom_bands:
  "(let zs = (if zooms = None \<or> zooms = Some [] then [0, 4, 8, 12, 14] else the zooms);
        low = filter (\<lambda>z. z < 9) zs;
        medium = filter (\<lambda>z. 9 \<le> z \<and> z \<le> 11) zs;
        high = filter (\<lambda>z. 11 < z) zs;
        filled = (\<lambda>band depth opts.
          \<lparr>q_prepare_table = pt, q_xmin = x0, q_ymin = y0, q_xmax = x1, q_ymax = y1,
           q_zooms = band, q_depth = depth, q_quadkey_zoom = qz, q_tile_extent = 4096,
           q_tile_buffer = 256, q_options = opts, q_output_table = out\<rparr>)
    in insert_low_level_zoom_data dumps pt [x0, y0, x1, y1] qz zooms options out =
           Inr (if low = [] then [] else [InsertLowLevel (filled low None (dumps options))])
       \<and> insert_medium_level_zoom_data dumps pt [x0, y0, x1, y1] qz zooms options out =
           Inr (map (\<lambda>z. InsertMediumLevel (filled [z] None (complete_options dumps options)))
                  medium)
       \<and> insert_high_level_zoom_data dumps pt [x0, y0, x1, y1] qz zooms options out =
           Inr (map (\<lambda>z. InsertHighLevel
                          (filled [11] (Some (z - 11)) (complete_options dumps options)))
                  high)
       \<and> mset low + mset medium + mset high = mset zs
       \<and> set low \<inter> set medium = {} \<and> set low \<inter> set high = {}
       \<and> set medium \<inter> set high = {})"
proof -
  define zs where
    "zs = (if zooms = None \<or> zooms = Some [] then [0, 4, 8, 12, 14] else the zooms)"
  define low where "low = filter (\<lambda>z. z < 9) zs"
  define medium where "medium = filter (\<lambda>z. 9 \<le> z \<and> z \<le> 11) zs"
  define high where "high = filter (\<lambda>z. 11 < z) zs"
  define filled where "filled = (\<lambda>band depth opts.
          \<lparr>q_prepare_table = pt, q_xmin = x0, q_ymin = y0, q_xmax = x1, q_ymax = y1,
           q_zooms = band, q_depth = depth, q_quadkey_zoom = qz, q_tile_extent = 4096,
           q_tile_buffer = 256, q_options = opts, q_output_table = out\<rparr>)"
  have used: "zooms_or_default zooms = zs"
    by (auto simp: zs_def zooms_or_default_def DEFAULT_ZOOMS_def split: option.split list.split)
  have l: "insert_low_level_zoom_data dumps pt [x0, y0, x1, y1] qz zooms options out =
           Inr (if low = [] then [] else [InsertLowLevel (filled low None (dumps options))])"
    by (simp add: insert_low_level_zoom_data_def format_insert_four low_def used filled_def
          MIN_MEDIUM_LEVEL_ZOOM_def Let_def)
  have m: "insert_medium_level_zoom_data dumps pt [x0, y0, x1, y1] qz zooms options out =
           Inr (map (\<lambda>z. InsertMediumLevel (filled [z] None (complete_options dumps options)))
                  medium)"
    unfolding insert_medium_level_zoom_data_def Let_def medium_def used filled_def
      MIN_MEDIUM_LEVEL_ZOOM_def MAX_MEDIUM_LEVEL_ZOOM_def
    by (simp add: for_each_zoom_total
          insert_medium_level_zoom_data_one_def format_insert_four)
  have h: "insert_high_level_zoom_data dumps pt [x0, y0, x1, y1] qz zooms options out =
           Inr (map (\<lambda>z. InsertHighLevel
                          (filled [11] (Some (z - 11)) (complete_options dumps options)))
                  high)"
    unfolding insert_high_level_zoom_data_def Let_def high_def used filled_def
      MAX_MEDIUM_LEVEL_ZOOM_def
    by (simp add: for_each_zoom_total
          insert_high_level_zoom_data_one_def format_insert_four MAX_MEDIUM_LEVEL_ZOOM_def)
  have p: "mset low + mset medium + mset high = mset zs"
    using zoom_bands_partition [of zs]
    by (simp add: low_def medium_def high_def MIN_MEDIUM_LEVEL_ZOOM_def
          MAX_MEDIUM_LEVEL_ZOOM_def)
  have d: "set low \<inter> set medium = {} \<and> set low \<inter> set high = {}
      \<and> set medium \<inter> set high = {}"
    by (auto simp: low_def medium_def high_def)
  from l m h p d show ?thesis
    unfolding Let_def zs_def [symmetric] low_def [symmetric] medium_def [symmetric]
      high_def [symmetric] filled_def [symmetric]
    by blast
qed

theorem tileset_zoom_bands_witness:
  "insert_low_level_zoom_data (\<lambda>_. ''{}'') ''prep'' [1::int, 2, 3, 4] 7
       (Some [10, 3, 12, 9, 20]) [] ''out''
     = Inr [InsertLowLevel
        \<lparr>q_prepare_table = ''prep'', q_xmin = 1, q_ymin = 2, q_xmax = 3, q_ymax = 4,
         q_zooms = [3], q_depth = None, q_quadkey_zoom = 7, q_tile_extent = 4096,
         q_tile_buffer = 256, q_options = ''{}'', q_output_table = ''out''\<rparr>]
   \<and> map (\<lambda>q. case q of InsertMediumLevel f \<Rightarrow> (q_zooms f, q_depth f) | _ \<Rightarrow> ([], None))
       (projr (insert_medium_level_zoom_data (\<lambda>_. ''{}'') ''prep'' [1::int, 2, 3, 4] 7
          (Some [10, 3, 12, 9, 20]) [] ''out''))
     = [([10], None), ([9], None)]
   \<and> map (\<lambda>q. case q of InsertHighLevel f \<Rightarrow> (q_zooms f, q_depth f) | _ \<Rightarrow> ([], None))
       (projr (insert_high_level_zoom_data (\<lambda>_. ''{}'') ''prep'' [1::int, 2, 3, 4] 7
          (Some [10, 3, 12, 9, 20]) [] ''out''))
     = [([11], Some 1), ([11], Some 9)]
   \<and> insert_medium_level_zoom_data (\<lambda>_. ''{}'') ''prep'' [1::int, 2, 3, 4] 7 None [] ''out''
     = Inr []
   \<and> map (\<lambda>q. case q of InsertHighLevel f \<Rightarrow> (q_zooms f, q_depth f) | _ \<Rightarrow> ([], None))
       (projr (insert_high_level_zoom_data (\<lambda>_. ''{}'') ''prep'' [1::int, 2, 3, 4] 7 None []
          ''out''))
     = [([11], Some 1), ([11], Some 3)]"
  using tileset_zoom_bands [where zooms = "Some [10, 3, 12, 9, 20]" and pt = "''prep''"
      and ?x0.0 = "1::int" and ?y0.0 = 2 and ?x1.0 = 3 and ?y1.0 = 4 and qz = 7
      and out = "''out''" and dumps = "\<lambda>_. ''{}''" and options = "[]"]
    tileset_zoom_bands [where zooms = None and pt = "''prep''" and ?x0.0 = "1::int"
      and ?y0.0 = 2 and ?x1.0 = 3 and ?y1.0 = 4 and qz = 7 and out = "''out''"
      and dumps = "\<lambda>_. ''{}''" and options = "[]"]
  by (simp add: Let_def)

text \<open>
  The claim as it was stated, that a band without a requested zoom makes its
  insert method execute no query, fails on the request \<open>zooms = []\<close>. No
  zoom is requested, so no band holds a requested zoom; the empty list is
  falsy, the default list is used, and the low-level method executes a
  query for the zooms 0, 4 and 8 and the high-level method two queries.
\<close>

theorem tileset_zoom_bands_counterexample:
  "filter (\<lambda>z. z < MIN_MEDIUM_LEVEL_ZOOM) ([] :: int list) = []
   \<and> filter (\<lambda>z. z > MAX_MEDIUM_LEVEL_ZOOM) ([] :: int list) = []
   \<and> insert_low_level_zoom_data (\<lambda>_. ''{}'') ''prep'' [1::int, 2, 3, 4] 7 (Some []) []
       ''out''
     = Inr [InsertLowLevel
        \<lparr>q_prepare_table = ''prep'', q_xmin = 1, q_ymin = 2, q_xmax = 3, q_ymax = 4,
         q_zooms = [0, 4, 8], q_depth = None, q_quadkey_zoom = 7, q_tile_extent = 4096,
         q_tile_buffer = 256, q_options = ''{}'', q_output_table = ''out''\<rparr>]
   \<and> length (projr (insert_high_level_zoom_data (\<lambda>_. ''{}'') ''prep'' [1::int, 2, 3, 4] 7
                      (Some []) [] ''out'')) = 2"
  by (simp add: insert_low_level_zoom_data_def insert_high_level_zoom_data_def
        insert_high_level_zoom_data_one_def zooms_or_default_def DEFAULT_ZOOMS_def
        format_insert_four MIN_MEDIUM_LEVEL_ZOOM_def MAX_MEDIUM_LEVEL_ZOOM_def Let_def)

lemma quadkey_zoom_loop_from:
  assumes "1 \<le> s" "s \<le> 20"
  shows "\<exists>out. quadkey_zoom_loop tile quadkey int4 x0 y0 x1 y1 s = Some out
          \<and> (case out of
                Inl e \<Rightarrow>
                  \<exists>z. s \<le> z \<and> z \<le> 20
                      \<and> integer_quadkeys tile quadkey int4 x0 y0 x1 y1 z = Inl e
                      \<and> (\<forall>z'. s \<le> z' \<and> z' < z \<longrightarrow> goes_on tile quadkey int4 x0 y0 x1 y1 z')
              | Inr (z, lo, hi) \<Rightarrow>
                  s \<le> z \<and> z \<le> 20
                  \<and> integer_quadkeys tile quadkey int4 x0 y0 x1 y1 z = Inr (lo, hi)
                  \<and> (hi - lo \<ge> MAX_PARTITIONS \<or> z = MAX_QUADKEY_ZOOM)
                  \<and> (\<forall>z'. s \<le> z' \<and> z' < z \<longrightarrow> goes_on tile quadkey int4 x0 y0 x1 y1 z'))"
  using assms
proof (induction "nat (20 - s)" arbitrary: s)
  case 0
  then have "s = 20" by simp
  then show ?case
    by (subst quadkey_zoom_loop.simps)
       (auto simp: MAX_QUADKEY_ZOOM_def split: sum.split)
next
  case (Suc n)
  then have lt: "s < 20" by simp
  show ?case
  proof (cases "goes_on tile quadkey int4 x0 y0 x1 y1 s")
    case False
    then show ?thesis using Suc.prems
      by (subst quadkey_zoom_loop.simps)
         (auto simp: goes_on_def split: sum.split)
  next
    case True
    from Suc have "n = nat (20 - (s + 1))" "1 \<le> s + 1" "s + 1 \<le> 20" by simp_all
    from Suc.hyps(1) [OF this] obtain out where
      out: "quadkey_zoom_loop tile quadkey int4 x0 y0 x1 y1 (s + 1) = Some out"
        "case out of
           Inl e \<Rightarrow>
             \<exists>z. s + 1 \<le> z \<and> z \<le> 20
                 \<and> integer_quadkeys tile quadkey int4 x0 y0 x1 y1 z = Inl e
                 \<and> (\<forall>z'. s + 1 \<le> z' \<and> z' < z \<longrightarrow> goes_on tile quadkey int4 x0 y0 x1 y1 z')
         | Inr (z, lo, hi) \<Rightarrow>
             s + 1 \<le> z \<and> z \<le> 20
             \<and> integer_quadkeys tile quadkey int4 x0 y0 x1 y1 z = Inr (lo, hi)
             \<and> (hi - lo \<ge> MAX_PARTITIONS \<or> z = MAX_QUADKEY_ZOOM)
             \<and> (\<forall>z'. s + 1 \<le> z' \<and> z' < z \<longrightarrow> goes_on tile quadkey int4 x0 y0 x1 y1 z')"
      by blast
    have step: "quadkey_zoom_loop tile quadkey int4 x0 y0 x1 y1 s =
                  quadkey_zoom_loop tile quadkey int4 x0 y0 x1 y1 (s + 1)"
      using True
      by (subst quadkey_zoom_loop.simps)
         (auto simp: goes_on_def split: sum.split)
    have first: "\<And>z z'. s \<le> z' \<Longrightarrow> z' < z \<Longrightarrow>
        (\<forall>z'. s + 1 \<le> z' \<and> z' < z \<longrightarrow> goes_on tile quadkey int4 x0 y0 x1 y1 z') \<Longrightarrow>
        goes_on tile quadkey int4 x0 y0 x1 y1 z'"
    proof -
      fix z z' :: int
      assume a: "s \<le> z'" "z' < z"
        and b: "\<forall>z'. s + 1 \<le> z' \<and> z' < z \<longrightarrow> goes_on tile quadkey int4 x0 y0 x1 y1 z'"
      show "goes_on tile quadkey int4 x0 y0 x1 y1 z'"
      proof (cases "z' = s")
        case True
        with \<open>goes_on tile quadkey int4 x0 y0 x1 y1 s\<close> show ?thesis by simp
      next
        case False
        with a b show ?thesis by auto
      qed
    qed
    show ?thesis
    proof (cases out)
      case (Inl e)
      with out(2) obtain z where
        z: "s + 1 \<le> z" "z \<le> 20" "integer_quadkeys tile quadkey int4 x0 y0 x1 y1 z = Inl e"
           "\<forall>z'. s + 1 \<le> z' \<and> z' < z \<longrightarrow> goes_on tile quadkey int4 x0 y0 x1 y1 z'"
        by auto
      have "\<forall>z'. s \<le> z' \<and> z' < z \<longrightarrow> goes_on tile quadkey int4 x0 y0 x1 y1 z'"
        using first z(4) by blast
      with z Inl out(1) step show ?thesis
        by (auto intro!: exI [of _ z])
    next
      case (Inr r)
      obtain z lo hi where r: "r = (z, lo, hi)"
        by (cases r) auto
      from Inr r out(2) have
        z: "s + 1 \<le> z" "z \<le> 20"
           "integer_quadkeys tile quadkey int4 x0 y0 x1 y1 z = Inr (lo, hi)"
           "hi - lo \<ge> MAX_PARTITIONS \<or> z = MAX_QUADKEY_ZOOM"
           "\<forall>z'. s + 1 \<le> z' \<and> z' < z \<longrightarrow> goes_on tile quadkey int4 x0 y0 x1 y1 z'"
        by auto
      have "\<forall>z'. s \<le> z' \<and> z' < z \<longrightarrow> goes_on tile quadkey int4 x0 y0 x1 y1 z'"
        using first z(5) by blast
      with z Inr r out(1) step show ?thesis
        by auto
    qed
  qed
qed

text \<open>
  Claim C9, as the code has it. The quadkey-zoom search always ends, after
  at most 20 iterations, each of which raises the zoom by one. On a bounding
  box for which the library calls return at every zoom from 1 to 20 it
  yields a zoom between 1 and 20: the first at which the integer-quadkey
  span reaches \<open>MAX_PARTITIONS\<close> or the zoom is \<open>MAX_QUADKEY_ZOOM\<close>. When a
  library call raises at a zoom the loop reaches, the search ends with that
  exception and yields no zoom.
\<close>

theorem quadkey_zoom_search_ends:
  "\<exists>out. guess_best_quadkey tile quadkey int4 x0 y0 x1 y1 = Some out
     \<and> (case out of
           Inl e \<Rightarrow>
             \<exists>z. 1 \<le> z \<and> z \<le> 20
                 \<and> integer_quadkeys tile quadkey int4 x0 y0 x1 y1 z = Inl e
                 \<and> (\<forall>z'. 1 \<le> z' \<and> z' < z \<longrightarrow> goes_on tile quadkey int4 x0 y0 x1 y1 z')
         | Inr (z, lo, hi) \<Rightarrow>
             1 \<le> z \<and> z \<le> 20
             \<and> integer_quadkeys tile quadkey int4 x0 y0 x1 y1 z = Inr (lo, hi)
             \<and> (hi - lo \<ge> MAX_PARTITIONS \<or> z = MAX_QUADKEY_ZOOM)
             \<and> (\<forall>z'. 1 \<le> z' \<and> z' < z \<longrightarrow> goes_on tile quadkey int4 x0 y0 x1 y1 z'))
     \<and> ((\<forall>z. 1 \<le> z \<and> z \<le> 20 \<longrightarrow>
            (\<exists>p. integer_quadkeys tile quadkey int4 x0 y0 x1 y1 z = Inr p))
         \<longrightarrow> (\<exists>z lo hi. out = Inr (z, lo, hi)))"
proof -
  from quadkey_zoom_loop_from [of 1 tile quadkey int4 x0 y0 x1 y1] obtain out where
    out: "quadkey_zoom_loop tile quadkey int4 x0 y0 x1 y1 1 = Some out"
      "case out of
         Inl e \<Rightarrow>
           \<exists>z. 1 \<le> z \<and> z \<le> 20
               \<and> integer_quadkeys tile quadkey int4 x0 y0 x1 y1 z = Inl e
               \<and> (\<forall>z'. 1 \<le> z' \<and> z' < z \<longrightarrow> goes_on tile quadkey int4 x0 y0 x1 y1 z')
       | Inr (z, lo, hi) \<Rightarrow>
           1 \<le> z \<and> z \<le> 20
           \<and> integer_quadkeys tile quadkey int4 x0 y0 x1 y1 z = Inr (lo, hi)
           \<and> (hi - lo \<ge> MAX_PARTITIONS \<or> z = MAX_QUADKEY_ZOOM)
           \<and> (\<forall>z'. 1 \<le> z' \<and> z' < z \<longrightarrow> goes_on tile quadkey int4 x0 y0 x1 y1 z')"
    by auto
  have "(\<forall>z. 1 \<le> z \<and> z \<le> 20 \<longrightarrow>
            (\<exists>p. integer_quadkeys tile quadkey int4 x0 y0 x1 y1 z = Inr p))
         \<longrightarrow> (\<exists>z lo hi. out = Inr (z, lo, hi))"
  proof (cases out)
    case (Inl e)
    with out(2) show ?thesis by auto
  next
    case (Inr r)
    then show ?thesis by (cases r) auto
  qed
  with out show ?thesis
    by (auto simp: guess_best_quadkey_def)
qed

theorem quadkey_zoom_search_ends_witness:
  "guess_best_quadkey example_tile example_quadkey example_int4 0 0 100 0
     = Some (Inr (7, 0, 12800))"
proof -
  have keys: "\<And>z. integer_quadkeys example_tile example_quadkey example_int4 0 0 100 0 z
                  = Inr (0, 100 * 2 ^ nat z)"
    by (simp add: integer_quadkeys_def example_tile_def example_quadkey_def example_int4_def)
  have on: "\<And>z. goes_on example_tile example_quadkey example_int4 0 0 100 0 z
                = (100 * 2 ^ nat z < (10000::int) \<and> z \<noteq> 20)"
    by (simp add: goes_on_def keys MAX_PARTITIONS_def MAX_QUADKEY_ZOOM_def)
  from quadkey_zoom_search_ends [of example_tile example_quadkey example_int4 0 0 100 0]
  obtain out where
    out: "guess_best_quadkey example_tile example_quadkey example_int4 0 0 100 0 = Some out"
      "case out of
         Inl e \<Rightarrow>
           \<exists>z. 1 \<le> z \<and> z \<le> 20
               \<and> integer_quadkeys example_tile example_quadkey example_int4 0 0 100 0 z = Inl e
               \<and> (\<forall>z'. 1 \<le> z' \<and> z' < z \<longrightarrow>
                     goes_on example_tile example_quadkey example_int4 0 0 100 0 z')
       | Inr (z, lo, hi) \<Rightarrow>
           1 \<le> z \<and> z \<le> 20
           \<and> integer_quadkeys example_tile example_quadkey example_int4 0 0 100 0 z = Inr (lo, hi)
           \<and> (hi - lo \<ge> MAX_PARTITIONS \<or> z = MAX_QUADKEY_ZOOM)
           \<and> (\<forall>z'. 1 \<le> z' \<and> z' < z \<longrightarrow>
                 goes_on example_tile example_quadkey example_int4 0 0 100 0 z')"
    by blast
  from out(2) obtain z lo hi where
    z: "out = Inr (z, lo, hi)" "1 \<le> z" "z \<le> 20"
       "lo = 0" "hi = 100 * 2 ^ nat z"
       "hi - lo \<ge> MAX_PARTITIONS \<or> z = MAX_QUADKEY_ZOOM"
       "\<forall>z'. 1 \<le> z' \<and> z' < z \<longrightarrow>
          goes_on example_tile example_quadkey example_int4 0 0 100 0 z'"
    by (cases out) (auto simp: keys)
  have "\<not> 7 < z"
  proof
    assume "7 < z"
    with z(7) have "goes_on example_tile example_quadkey example_int4 0 0 100 0 7" by simp
    then show False by (simp add: on)
  qed
  moreover have "\<not> z < 7"
  proof
    assume "z < 7"
    with z(2) have "z = 1 \<or> z = 2 \<or> z = 3 \<or> z = 4 \<or> z = 5 \<or> z = 6" by arith
    with z(4,5,6) show False
      by (auto simp: MAX_PARTITIONS_def MAX_QUADKEY_ZOOM_def)
  qed
  ultimately have "z = 7" by simp
  with z out(1) show ?thesis by simp
qed

text \<open>
  The claim as it was stated, that the search yields a zoom for every
  bounding box, fails on the bounding box of the whole world,
  \<open>[-180, -90, 180, 90]\<close>: the first tile is asked for at latitude 90,
  where the library raises, and the search ends with that exception at
  zoom 1.
\<close>

theorem quadkey_zoom_search_counterexample:
  "guess_best_quadkey example_tile example_quadkey example_int4 (- 180) (- 90) 180 90
     = Some (Inl InvalidLatitudeError)"
  by (simp add: guess_best_quadkey_def quadkey_zoom_loop.simps integer_quadkeys_def
        example_tile_def)

section \<open>Properties of the catalog repository\<close>

lemma map_from_repo: "map from_repo rows = rows"
  by (induction rows) (simp_all add: from_repo_def)

text \<open>
  Claim C6. Every query method of the variable repository passes its
  argument through to the client: \<open>get_all\<close> calls it with no filter,
  \<open>get_by_id\<close> filters on \<open>id\<close>, \<open>get_by_dataset\<close> on \<open>dataset_id\<close> and
  \<open>get_by_variable_group\<close> on \<open>variable_group_id\<close>; the rows that come back
  are wrapped as they are, a non-empty list into \<open>Variables\<close> and the first
  row of a non-empty \<open>get_by_id\<close> result into \<open>Variable\<close>.
\<close>

theorem variable_repo_pass_through:
  "get_all client = to_variables (client NoFilter)
   \<and> get_by_dataset client dataset_id = to_variables (client (FilterBy ''dataset_id'' dataset_id))
   \<and> get_by_variable_group client group_id =
       to_variables (client (FilterBy ''variable_group_id'' group_id))
   \<and> (\<forall>rows. rows \<noteq> [] \<longrightarrow> to_variables rows = Some (Variables rows))
   \<and> (client (FilterBy ''id'' variable_id) \<noteq> [] \<longrightarrow>
        get_by_id client variable_id = Inr (Variable (hd (client (FilterBy ''id'' variable_id)))))"
  by (auto simp: get_all_def get_by_dataset_def get_by_variable_group_def to_variables_def
        get_by_id_def from_repo_def to_variable_def Let_def hd_conv_nth map_from_repo)

theorem variable_repo_pass_through_witness:
  "get_all example_client = Some (Variables [''v1'', ''v2''])
   \<and> get_by_dataset example_client ''d'' = Some (Variables [''v1''])
   \<and> get_by_id example_client ''v2'' = Inr (Variable ''v2'')"
  using variable_repo_pass_through [of example_client "''d''" "''g''" "''v2''"]
  by (auto simp: example_client_def)

text \<open>
  Claim C10. An empty result of the client becomes \<open>None\<close>, not an empty
  collection, in \<open>get_all\<close>, \<open>get_by_dataset\<close> and \<open>get_by_variable_group\<close>,
  and \<open>get_by_id\<close> raises \<open>DiscoveryException\<close> when the client returns no
  row for the id.
\<close>

theorem variable_repo_empty_results:
  "(client NoFilter = [] \<longrightarrow> get_all client = None)
   \<and> (client (FilterBy ''dataset_id'' dataset_id) = [] \<longrightarrow>
        get_by_dataset client dataset_id = None)
   \<and> (client (FilterBy ''variable_group_id'' group_id) = [] \<longrightarrow>
        get_by_variable_group client group_id = None)
   \<and> (client (FilterBy ''id'' variable_id) = [] \<longrightarrow>
        (\<exists>msg. get_by_id client variable_id = Inl (DiscoveryException msg)))"
  by (simp add: get_all_def get_by_dataset_def get_by_variable_group_def to_variables_def
        get_by_id_def Let_def)

theorem variable_repo_empty_results_witness:
  "get_all (\<lambda>a :: string client_args. ([] :: string list)) = None
   \<and> get_by_dataset (\<lambda>a :: string client_args. ([] :: string list)) ''d'' = None
   \<and> get_by_variable_group (\<lambda>a :: string client_args. ([] :: string list)) ''g'' = None
   \<and> (\<exists>msg. get_by_id (\<lambda>a :: string client_args. ([] :: string list)) ''unknown_id'' = Inl (DiscoveryException msg))"
  using variable_repo_empty_results
    [of "\<lambda>a :: string client_args. ([] :: string list)" "''d''" "''g''" "''unknown_id''"]
  by simp

section \<open>Properties of the geocoding service\<close>

subsection \<open>The runs of \<open>_geocode\<close>\<close>

lemma is_dataframe_otherwise:
  "\<not> is_table h src \<Longrightarrow> \<not> is_query h src \<Longrightarrow> is_dataframe src"
  by (cases src) (simp_all add: is_table_def is_query_def is_dataframe_def)

lemma prior_trace:
  "fst (execute_prior_summary env tr t s c st co) =
     tr @ [ExecuteQuery (ExistsColumnQuery t HASH_COLUMN),
           ExecuteQuery (if no_rows (query_answer env tr (ExistsColumnQuery t HASH_COLUMN))
                         then FirstTimeSummaryQuery t s c st co
                         else PriorSummaryQuery t s c st co)]"
  by (simp add: execute_prior_summary_def Let_def)

lemma internal_geocode_cases:
  "internal_geocode h env tr t s c st co status dry_run =
     (let tr1 = fst (execute_prior_summary env tr t s c st co);
          out0 = prior_output h env tr t s c st co;
          alter = ExecuteQuery (AlterTableAddColumns t
                    (geocode_query_columns h t s c st co status @ [(HASH_COLUMN, ''text'')]));
          run = ExecuteLongRunningQuery (GeocodeQuery t s c st co status)
      in case required_quota_positive out0 of
           Inl e \<Rightarrow> (tr1, Inl e)
         | Inr positive \<Rightarrow>
             if positive \<and> \<not> dry_run then
               (if \<not> lock_answer env tr1 t then
                  (tr1 @ [LockEnter t, LockExit t],
                   Inr (out0(''error'' \<mapsto> PStr ''The table is already being geocoded'',
                             ''aborted'' \<mapsto> PBool True)))
                else
                  (case long_query_answer env (tr1 @ [LockEnter t, alter])
                          (GeocodeQuery t s c st co status) of
                     Inl msg \<Rightarrow>
                       (tr1 @ [LockEnter t, alter, run, LockExit t], Inr (record_error h msg out0))
                   | Inr _ \<Rightarrow>
                       (tr1 @ [LockEnter t, alter, run, LockExit t,
                               ExecuteQuery (PosteriorSummaryQuery t)],
                        Inr (set_post_summary_info h (prior_summary env tr t s c st co)
                               (query_answer env (tr1 @ [LockEnter t, alter, run, LockExit t])
                                  (PosteriorSummaryQuery t))
                               out0))))
             else (tr1, Inr out0))"
proof -
  obtain tr1 res where p: "execute_prior_summary env tr t s c st co = (tr1, res)"
    by (cases "execute_prior_summary env tr t s c st co")
  show ?thesis
    by (simp add: internal_geocode_def prior_output_def prior_summary_def Let_def p
          split: sum.split)
qed

text \<open>
  Claim C8. When the prior summary gives \<open>required_quota = 0\<close>, \<open>_geocode\<close>
  makes no request but the two queries of the prior summary, which only
  read: it takes no lock and issues no \<open>ALTER TABLE\<close>, no geocoding query and
  no posterior summary query, and it returns the metadata that
  \<open>set_pre_summary_info\<close> made of the prior counts.
\<close>

theorem no_quota_no_geocoding:
  "prior_output h env tr t s c st co ''required_quota'' = Some (PInt 0) \<Longrightarrow>
   internal_geocode h env tr t s c st co status dry_run =
     (tr @ [ExecuteQuery (ExistsColumnQuery t HASH_COLUMN),
            ExecuteQuery (if no_rows (query_answer env tr (ExistsColumnQuery t HASH_COLUMN))
                          then FirstTimeSummaryQuery t s c st co
                          else PriorSummaryQuery t s c st co)],
      Inr (prior_output h env tr t s c st co))"
  by (simp add: internal_geocode_cases prior_trace required_quota_positive_def Let_def)

theorem no_quota_no_geocoding_witness:
  "fst (internal_geocode example_helpers (example_env 0) [] ''cache'' ''address'' None None None
          [] False)
     = [ExecuteQuery (ExistsColumnQuery ''cache'' ''carto_geocode_hash''),
        ExecuteQuery (PriorSummaryQuery ''cache'' ''address'' None None None)]
   \<and> (case snd (internal_geocode example_helpers (example_env 0) [] ''cache'' ''address'' None
                   None None [] False) of
        Inl e \<Rightarrow> False
      | Inr output \<Rightarrow> output ''required_quota'' = Some (PInt 0) \<and> output ''error'' = None)"
proof -
  have "prior_output example_helpers (example_env 0) [] ''cache'' ''address'' None None None
          ''required_quota'' = Some (PInt 0)"
    by (simp add: example_defs)
  from no_quota_no_geocoding [OF this, of "[]" False] show ?thesis
    by (simp add: example_defs)
qed

lemma locked_runs_internal_geocode:
  "locked_runs env t tr False
     (drop (length tr) (fst (internal_geocode h env tr t s c st co status dry_run)))"
  by (simp add: internal_geocode_cases prior_trace Let_def split: sum.split)

text \<open>
  Claim C4. In every run of \<open>_geocode\<close> the long-running geocoding query is
  executed only while the lock of the table is held, between a \<open>LockEnter\<close>
  that was answered \<open>True\<close> and the \<open>LockExit\<close>. When the lock is asked for and
  not obtained, the run makes no further request in the \<open>with\<close> block, so no
  \<open>ALTER TABLE\<close> and no geocoding query, and returns the metadata with
  \<open>error = 'The table is already being geocoded'\<close> and \<open>aborted = True\<close>.
\<close>

theorem geocoding_under_lock:
  "locked_runs env t tr False
     (drop (length tr) (fst (internal_geocode h env tr t s c st co status dry_run)))
   \<and> (required_quota_positive (prior_output h env tr t s c st co) = Inr True \<and> \<not> dry_run
        \<and> \<not> lock_answer env (fst (execute_prior_summary env tr t s c st co)) t
      \<longrightarrow> internal_geocode h env tr t s c st co status dry_run =
            (fst (execute_prior_summary env tr t s c st co) @ [LockEnter t, LockExit t],
             Inr ((prior_output h env tr t s c st co)
                    (''error'' \<mapsto> PStr ''The table is already being geocoded'',
                     ''aborted'' \<mapsto> PBool True))))"
  by (simp add: locked_runs_internal_geocode)
     (simp add: internal_geocode_cases Let_def)

theorem geocoding_under_lock_witness:
  "fst (internal_geocode example_helpers ((example_env 1)\<lparr>lock_answer := (\<lambda>tr t. False)\<rparr>) []
          ''cache'' ''address'' None None None [] False)
     = [ExecuteQuery (ExistsColumnQuery ''cache'' ''carto_geocode_hash''),
        ExecuteQuery (PriorSummaryQuery ''cache'' ''address'' None None None),
        LockEnter ''cache'', LockExit ''cache'']
   \<and> (case snd (internal_geocode example_helpers
                   ((example_env 1)\<lparr>lock_answer := (\<lambda>tr t. False)\<rparr>) []
                   ''cache'' ''address'' None None None [] False) of
        Inl e \<Rightarrow> False
      | Inr output \<Rightarrow>
          output ''error'' = Some (PStr ''The table is already being geocoded'')
          \<and> output ''aborted'' = Some (PBool True))
   \<and> locked_runs (example_env 1) ''cache'' [] False
        (fst (internal_geocode example_helpers (example_env 1) []
                ''cache'' ''address'' None None None [] False))
   \<and> length (fst (internal_geocode example_helpers (example_env 1) []
                ''cache'' ''address'' None None None [] False)) = 7"
proof -
  let ?env = "(example_env 1)\<lparr>lock_answer := (\<lambda>tr t. False)\<rparr>"
  have pre: "required_quota_positive
          (prior_output example_helpers ?env [] ''cache'' ''address'' None None None) = Inr True
        \<and> \<not> False
        \<and> \<not> lock_answer ?env
              (fst (execute_prior_summary ?env [] ''cache'' ''address'' None None None)) ''cache''"
    by (simp add: example_defs)
  from geocoding_under_lock
         [of ?env "''cache''" "[]" example_helpers "''address''" None None None "[]" False]
       pre
  have a: "internal_geocode example_helpers ?env [] ''cache'' ''address'' None None None [] False =
            (fst (execute_prior_summary ?env [] ''cache'' ''address'' None None None)
               @ [LockEnter ''cache'', LockExit ''cache''],
             Inr ((prior_output example_helpers ?env [] ''cache'' ''address'' None None None)
                    (''error'' \<mapsto> PStr ''The table is already being geocoded'',
                     ''aborted'' \<mapsto> PBool True)))"
    by blast
  from geocoding_under_lock
         [of "example_env 1" "''cache''" "[]" example_helpers "''address''" None None None "[]"
             False]
  have b: "locked_runs (example_env 1) ''cache'' [] False
        (fst (internal_geocode example_helpers (example_env 1) []
                ''cache'' ''address'' None None None [] False))"
    by simp
  have c: "length (fst (internal_geocode example_helpers (example_env 1) []
                ''cache'' ''address'' None None None [] False)) = 7"
    by (simp add: internal_geocode_cases Let_def example_defs)
  from b c show ?thesis
    unfolding a by (simp add: example_defs)
qed

subsection \<open>Dry runs\<close>

lemma internal_geocode_dry_run:
  "internal_geocode h env tr t s c st co status True =
     (fst (execute_prior_summary env tr t s c st co),
      case required_quota_positive (prior_output h env tr t s c st co) of
        Inl e \<Rightarrow> Inl e
      | Inr positive \<Rightarrow> Inr (prior_output h env tr t s c st co))"
  by (simp add: internal_geocode_cases Let_def split: sum.split)

lemma required_quota_present:
  "required_quota_positive output = Inr b \<Longrightarrow> output ''required_quota'' \<noteq> None"
  by (auto simp: required_quota_positive_def split: option.splits)

lemma table_for_geocoding_requests:
  "filter is_geocoding_request (fst (table_for_geocoding h env tr src tn ie dr)) =
     filter is_geocoding_request tr"
  by (simp add: table_for_geocoding_def Let_def)

lemma geocode_not_cached_dry_run:
  "filter is_geocoding_request
     (fst (geocode_not_cached h env tr cols src s c st co status tn ie True)) =
     filter is_geocoding_request tr
   \<and> dry_outcome (snd (geocode_not_cached h env tr cols src s c st co status tn ie True))"
proof (cases "column_or_value_args h c st co cols")
  case (Inl e)
  then show ?thesis
    by (simp add: geocode_not_cached_def dry_outcome_def)
next
  case (Inr args)
  obtain c' st' co' where args: "args = (c', st', co')"
    by (cases args) auto
  obtain tr1 name tmp where t: "table_for_geocoding h env tr src tn ie True = (tr1, name, tmp)"
    by (cases "table_for_geocoding h env tr src tn ie True") auto
  from table_for_geocoding_requests [of h env tr src tn ie True] t
  have f: "filter is_geocoding_request tr1 = filter is_geocoding_request tr"
    by simp
  show ?thesis
    using f required_quota_present [of "prior_output h env tr1 name s c' st' co'"]
    by (simp add: geocode_not_cached_def Inr args t internal_geocode_dry_run prior_trace
          dry_outcome_def split: sum.split)
qed

lemma geocode_call_dry_run:
  "filter is_geocoding_request
     (fst (geocode_call h env tr src s c st co status tn ie True)) =
     filter is_geocoding_request tr
   \<and> dry_outcome (snd (geocode_call h env tr src s c st co status tn ie True))"
  using geocode_not_cached_dry_run
    [of h env "tr @ [GetColumnNames src]" "column_names_answer env tr src" src]
  by (simp add: geocode_call_def Let_def)

lemma result_rewrap:
  "(case x of (tr, Inl e) \<Rightarrow> (tr, Inl e)
    | (tr, Inr r) \<Rightarrow> (tr, Inr \<lparr>data = data r, metadata = metadata r\<rparr>)) = x"
  by (cases x) (auto split: sum.split)

lemma cached_geocode_cases:
  "cached_geocode h env tr cols src tn s c st co dry_run =
     (let has_cache = has_table_answer env tr tn;
          tr1 = tr @ [HasTable tn];
          tr2 = (if has_cache then tr1 @ [GetColumnNames (Str tn)] else tr1);
          tmp = temporary_name_answer env tr2
      in if has_cache \<and> HASH_COLUMN \<notin> set (column_names_answer env tr1 (Str tn)) then
           (tr2, Inl (ValueError (''Cache table '' @ tn
                                   @ '' exists but is not a valid geocode table'')))
         else if HASH_COLUMN \<in> set cols \<or> \<not> has_cache then
           geocode_call h env tr2 src s c st co (DEFAULT_STATUS h) (Some tn) ''replace'' dry_run
         else if is_table h src then
           (tr2 @ [NewTemporaryTableName],
            Inl (ValueError ''cached geocoding cannot be used with tables''))
         else
           (case column_or_value_args h c st co cols of
              Inl e \<Rightarrow>
                (tr2 @ [NewTemporaryTableName, ToCarto src tmp None,
                        ExecuteQuery (AlterTableAddColumns tmp [(HASH_COLUMN, ''text'')])],
                 Inl e)
            | Inr (hcity, hstate, hcountry) \<Rightarrow>
                geocode_call h env
                  (tr2 @ [NewTemporaryTableName, ToCarto src tmp None,
                          ExecuteQuery (AlterTableAddColumns tmp [(HASH_COLUMN, ''text'')]),
                          ExecuteQuery (UpdateFrom tmp tn HASH_COLUMN
                                          (HashExpr s hcity hstate hcountry tmp)),
                          DeleteTable tn, UpdateTable tmp tn ''private''])
                  (Str tn) s c st co (DEFAULT_STATUS h) None ''fail'' dry_run))"
  by (simp add: cached_geocode_def Let_def result_rewrap split: sum.split)

lemma dry_outcome_Inl: "dry_outcome (Inl e)"
  by (simp add: dry_outcome_def)

lemma cached_geocode_dry_run:
  "filter is_geocoding_request
     (fst (cached_geocode h env tr cols src tn s c st co True)) =
     filter is_geocoding_request tr
   \<and> dry_outcome (snd (cached_geocode h env tr cols src tn s c st co True))"
  by (simp add: cached_geocode_cases Let_def geocode_call_dry_run dry_outcome_Inl
        split: sum.split)

text \<open>
  Claim C5. A call of \<open>geocode\<close> with \<open>dry_run=True\<close> geocodes nothing:
  \<open>_geocode\<close> makes no request but the two queries of the prior summary, so
  it takes no lock, alters no table and runs no geocoding query; the whole
  call adds no lock request and no long-running query to the trace, along
  the cached paths too; and what it returns has no data and has metadata
  with the required quota. Such a call, when it is not cached, does return
  if \<open>column_or_value_arg\<close> accepts the arguments and \<open>set_pre_summary_info\<close>
  sets an integer quota.
\<close>

theorem dry_run_geocodes_nothing:
  "fst (internal_geocode h env tr t s c st co status True) =
     tr @ [ExecuteQuery (ExistsColumnQuery t HASH_COLUMN),
           ExecuteQuery (if no_rows (query_answer env tr (ExistsColumnQuery t HASH_COLUMN))
                         then FirstTimeSummaryQuery t s c st co
                         else PriorSummaryQuery t s c st co)]
   \<and> filter is_geocoding_request
       (fst (geocode h env tr src s city state country status tn ie True cached)) =
       filter is_geocoding_request tr
   \<and> (case snd (geocode h env tr src s city state country status tn ie True cached) of
        Inl e \<Rightarrow> True
      | Inr res \<Rightarrow> data res = None \<and> metadata res ''required_quota'' \<noteq> None)
   \<and> (\<not> cached
        \<and> (\<exists>args. column_or_value_args h city state country (column_names_answer env tr src)
                     = Inr args)
        \<and> (\<forall>counters. \<exists>n. set_pre_summary_info h counters Map.empty ''required_quota''
                            = Some (PInt n))
      \<longrightarrow> (\<exists>md. snd (geocode h env tr src s city state country status tn ie True cached)
                  = Inr \<lparr>data = None, metadata = md\<rparr>))"
proof -
  have a: "fst (internal_geocode h env tr t s c st co status True) =
     tr @ [ExecuteQuery (ExistsColumnQuery t HASH_COLUMN),
           ExecuteQuery (if no_rows (query_answer env tr (ExistsColumnQuery t HASH_COLUMN))
                         then FirstTimeSummaryQuery t s c st co
                         else PriorSummaryQuery t s c st co)]"
    by (simp add: internal_geocode_dry_run prior_trace)
  have b: "filter is_geocoding_request
       (fst (geocode h env tr src s city state country status tn ie True cached)) =
       filter is_geocoding_request tr
     \<and> dry_outcome (snd (geocode h env tr src s city state country status tn ie True cached))"
    using cached_geocode_dry_run
            [of h env "tr @ [GetColumnNames src]" "column_names_answer env tr src" src "the tn"
                s city state country]
          geocode_not_cached_dry_run
            [of h env "tr @ [GetColumnNames src]" "column_names_answer env tr src" src
                s city state country status tn ie]
    by (simp add: geocode_def Let_def dry_outcome_Inl)
  have c: "\<exists>md. snd (geocode h env tr src s city state country status tn ie True cached)
                  = Inr \<lparr>data = None, metadata = md\<rparr>"
    if nc: "\<not> cached"
      and args: "column_or_value_args h city state country (column_names_answer env tr src)
                  = Inr args"
      and quota: "\<forall>counters. \<exists>n. set_pre_summary_info h counters Map.empty ''required_quota''
                            = Some (PInt n)"
    for args
  proof -
    obtain c' st' co' where args': "args = (c', st', co')"
      by (cases args) auto
    obtain tr1 name tmp where
      t: "table_for_geocoding h env (tr @ [GetColumnNames src]) src tn ie True = (tr1, name, tmp)"
      by (cases "table_for_geocoding h env (tr @ [GetColumnNames src]) src tn ie True") auto
    from quota obtain n where
      "prior_output h env tr1 name s c' st' co' ''required_quota'' = Some (PInt n)"
      unfolding prior_output_def by blast
    then have "required_quota_positive (prior_output h env tr1 name s c' st' co') = Inr (n > 0)"
      by (simp add: required_quota_positive_def)
    with nc args args' t show ?thesis
      by (simp add: geocode_def geocode_not_cached_def Let_def internal_geocode_dry_run)
  qed
  from a b c show ?thesis
    by (auto simp: dry_outcome_def)
qed

theorem dry_run_geocodes_nothing_witness:
  "fst (geocode example_helpers (example_env 1) [] (DataFrame example_dataframe) ''address''
          None None None [] None ''fail'' True False)
     = [GetColumnNames (DataFrame example_dataframe), NewTemporaryTableName,
        ToCarto (DataFrame example_dataframe) ''tmp_1'' (Some ''fail''),
        ExecuteQuery (ExistsColumnQuery ''tmp_1'' ''carto_geocode_hash''),
        ExecuteQuery (PriorSummaryQuery ''tmp_1'' ''address'' None None None)]
   \<and> (\<exists>md. snd (geocode example_helpers (example_env 1) [] (DataFrame example_dataframe)
                   ''address'' None None None [] None ''fail'' True False)
               = Inr \<lparr>data = None, metadata = md\<rparr>
            \<and> md ''required_quota'' = Some (PInt 1))
   \<and> filter is_geocoding_request
        (fst (geocode example_helpers (example_env 1) [] (DataFrame example_dataframe)
                ''address'' None None None [] (Some ''cache'') ''fail'' True True)) = []"
proof -
  note dry = dry_run_geocodes_nothing
    [where h = example_helpers and env = "example_env 1" and tr = "[]"
       and src = "DataFrame example_dataframe" and s = "''address''" and city = None
       and state = None and country = None and status = "[]" and ie = "''fail''"]
  have args: "\<exists>args. column_or_value_args example_helpers None None None
                 (column_names_answer (example_env 1) [] (DataFrame example_dataframe))
               = Inr args"
    by (simp add: example_defs column_or_value_args_def)
  have quota: "\<forall>counters. \<exists>n.
      set_pre_summary_info example_helpers counters Map.empty ''required_quota''
        = Some (PInt n)"
    by (auto simp: example_defs split: option.split pyval.split)
  from dry [where tn = None and cached = False] args quota
  obtain md where md:
    "snd (geocode example_helpers (example_env 1) [] (DataFrame example_dataframe)
            ''address'' None None None [] None ''fail'' True False)
       = Inr \<lparr>data = None, metadata = md\<rparr>"
    by blast
  have tr: "fst (geocode example_helpers (example_env 1) [] (DataFrame example_dataframe) ''address''
          None None None [] None ''fail'' True False)
     = [GetColumnNames (DataFrame example_dataframe), NewTemporaryTableName,
        ToCarto (DataFrame example_dataframe) ''tmp_1'' (Some ''fail''),
        ExecuteQuery (ExistsColumnQuery ''tmp_1'' ''carto_geocode_hash''),
        ExecuteQuery (PriorSummaryQuery ''tmp_1'' ''address'' None None None)]"
    by (simp add: geocode_def geocode_not_cached_def column_or_value_args_def
          table_for_geocoding_def is_table_def is_query_def truthy_def internal_geocode_dry_run
          prior_trace Let_def
          example_defs)
  have q: "md ''required_quota'' = Some (PInt 1)"
    using md
    by (auto simp: geocode_def geocode_not_cached_def column_or_value_args_def
          table_for_geocoding_def is_table_def is_query_def truthy_def internal_geocode_dry_run
          prior_trace Let_def
          example_defs)
  from dry [where tn = "Some ''cache''" and cached = True]
  have "filter is_geocoding_request
        (fst (geocode example_helpers (example_env 1) [] (DataFrame example_dataframe)
                ''address'' None None None [] (Some ''cache'') ''fail'' True True)) = []"
    by simp
  with tr md q show ?thesis
    by simp
qed

subsection \<open>The summary before and after\<close>

lemma no_rows_iff:
  "no_rows result =
     (case result of
        None \<Rightarrow> True
      | Some res \<Rightarrow> res_total_rows res = None \<or> res_total_rows res = Some 0)"
  by (simp add: no_rows_def split: option.split)

lemma find_snoc:
  "find P (xs @ [x]) = (case find P xs of None \<Rightarrow> (if P x then Some x else None) | Some y \<Rightarrow> Some y)"
  by (induction xs) simp_all

lemma fold_summary_last:
  "fold count_row rs summary k =
     (case find (\<lambda>row. row_get row ''gc_state'' = k) (rev rs) of
        None \<Rightarrow> summary k
      | Some row \<Rightarrow> Some (row_get row ''count''))"
proof (induction rs arbitrary: summary)
  case Nil
  show ?case by simp
next
  case (Cons r rs)
  have step: "fold count_row (r # rs) summary k =
     (case find (\<lambda>row. row_get row ''gc_state'' = k) (rev rs) of
        None \<Rightarrow> count_row r summary k
      | Some row \<Rightarrow> Some (row_get row ''count''))"
    by (simp add: Cons.IH)
  have val: "count_row r summary k =
     (if row_get r ''gc_state'' = k then Some (row_get r ''count'') else summary k)"
    by (auto simp: count_row_def)
  show ?case
    unfolding step val by (simp add: find_snoc split: option.split)
qed

lemma initial_summary_zero:
  "g \<in> set gc_states \<Longrightarrow> initial_summary (PStr g) = Some (PInt 0)"
  by (auto simp: initial_summary_def gc_states_def)

lemma read_summary_counters:
  "g \<in> set gc_states \<Longrightarrow>
   read_summary result initial_summary (PStr g) =
     (case result of
        None \<Rightarrow> Some (PInt 0)
      | Some res \<Rightarrow>
          (case find (\<lambda>row. row_get row ''gc_state'' = PStr g) (rev (res_rows res)) of
             None \<Rightarrow> Some (PInt 0)
           | Some row \<Rightarrow> Some (row_get row ''count'')))"
  by (simp add: read_summary_def fold_summary_last initial_summary_zero split: option.split)

lemma record_error_other_keys:
  "k \<notin> {''error'', ''aborted'', ''remaining_quota'', ''estimated_cost''} \<Longrightarrow>
   record_error h msg output k = output k"
  by (simp add: record_error_def Let_def split: option.split prod.split)

text \<open>
  Claim C2. Every call of \<open>_geocode\<close> starts with the prior summary: the
  query whether the hash column exists and then the first-time summary
  query, when that column is not there (the query has no answer, or an
  answer of no row), or else the prior summary query. The rows of its answer
  are read into the six counters \<open>new_geocoded\<close>, \<open>new_nongeocoded\<close>,
  \<open>changed_geocoded\<close>, \<open>changed_nongeocoded\<close>, \<open>previously_geocoded\<close> and
  \<open>previously_nongeocoded\<close>, each zero unless a row names it. The metadata is made of the counters by
  \<open>set_pre_summary_info\<close>. When geocoding runs and is not aborted (quota
  needed, no dry run, lock obtained, no exception), the posterior summary
  query follows the run and \<open>set_post_summary_info\<close> adds its answer to the
  metadata. In every other case no posterior summary query is executed, and
  the metadata is the one from before, but for the error keys.
\<close>

theorem geocode_reports_summary:
  "(let exists_query = ExistsColumnQuery t HASH_COLUMN;
        first_time = (case query_answer env tr exists_query of
                        None \<Rightarrow> True
                      | Some res \<Rightarrow> res_total_rows res = None \<or> res_total_rows res = Some 0);
        summary_query = (if first_time
                         then FirstTimeSummaryQuery t s c st co
                         else PriorSummaryQuery t s c st co);
        prior = tr @ [ExecuteQuery exists_query, ExecuteQuery summary_query];
        prior_result = query_answer env (tr @ [ExecuteQuery exists_query]) summary_query;
        counters = read_summary prior_result initial_summary;
        before = set_pre_summary_info h counters Map.empty;
        run = [LockEnter t,
               ExecuteQuery (AlterTableAddColumns t
                 (geocode_query_columns h t s c st co status @ [(HASH_COLUMN, ''text'')])),
               ExecuteLongRunningQuery (GeocodeQuery t s c st co status),
               LockExit t];
        posterior = PosteriorSummaryQuery t;
        (tr', r) = internal_geocode h env tr t s c st co status dry_run;
        completed = (required_quota_positive before = Inr True \<and> \<not> dry_run
                     \<and> lock_answer env prior t
                     \<and> \<not> isl (long_query_answer env (prior @ take 2 run)
                                (GeocodeQuery t s c st co status)))
    in take (length prior) tr' = prior
       \<and> (\<forall>g \<in> {''new_geocoded'', ''new_nongeocoded'', ''changed_geocoded'',
                  ''changed_nongeocoded'', ''previously_geocoded'',
                  ''previously_nongeocoded''}.
             counters (PStr g) =
               (case prior_result of
                  None \<Rightarrow> Some (PInt 0)
                | Some res \<Rightarrow>
                    (case find (\<lambda>row. row_get row ''gc_state'' = PStr g) (rev (res_rows res)) of
                       None \<Rightarrow> Some (PInt 0)
                     | Some row \<Rightarrow> Some (row_get row ''count''))))
       \<and> (completed \<longrightarrow>
             tr' = prior @ run @ [ExecuteQuery posterior]
             \<and> r = Inr (set_post_summary_info h counters
                          (query_answer env (prior @ run) posterior) before))
       \<and> (\<not> completed \<longrightarrow>
             ExecuteQuery posterior \<notin> set (drop (length tr) tr')
             \<and> (case r of
                  Inl e \<Rightarrow> required_quota_positive before = Inl e
                | Inr md \<Rightarrow>
                    \<forall>k. k \<notin> {''error'', ''aborted'', ''remaining_quota'', ''estimated_cost''}
                          \<longrightarrow> md k = before k)))"
proof -
  define exists_query where "exists_query = ExistsColumnQuery t HASH_COLUMN"
  define first_time where
    "first_time = (case query_answer env tr exists_query of
                     None \<Rightarrow> True
                   | Some res \<Rightarrow> res_total_rows res = None \<or> res_total_rows res = Some 0)"
  have nr: "no_rows (query_answer env tr (ExistsColumnQuery t HASH_COLUMN)) = first_time"
    by (simp add: no_rows_iff first_time_def exists_query_def)
  define summary_query where
    "summary_query = (if first_time
                      then FirstTimeSummaryQuery t s c st co
                      else PriorSummaryQuery t s c st co)"
  define prior where "prior = tr @ [ExecuteQuery exists_query, ExecuteQuery summary_query]"
  define prior_result where
    "prior_result = query_answer env (tr @ [ExecuteQuery exists_query]) summary_query"
  define counters where "counters = read_summary prior_result initial_summary"
  define before where "before = set_pre_summary_info h counters Map.empty"
  have p1: "fst (execute_prior_summary env tr t s c st co) = prior"
    by (simp add: prior_trace prior_def summary_query_def exists_query_def nr)
  have p2: "prior_summary env tr t s c st co = counters"
    by (simp add: prior_summary_def execute_prior_summary_def Let_def counters_def
          prior_result_def summary_query_def exists_query_def nr)
  have p3: "prior_output h env tr t s c st co = before"
    by (simp add: prior_output_def p2 before_def)
  have len: "length prior = length tr + 2"
    by (simp add: prior_def)
  have counted: "\<forall>g \<in> {''new_geocoded'', ''new_nongeocoded'', ''changed_geocoded'',
                  ''changed_nongeocoded'', ''previously_geocoded'',
                  ''previously_nongeocoded''}.
             counters (PStr g) =
               (case prior_result of
                  None \<Rightarrow> Some (PInt 0)
                | Some res \<Rightarrow>
                    (case find (\<lambda>row. row_get row ''gc_state'' = PStr g) (rev (res_rows res)) of
                       None \<Rightarrow> Some (PInt 0)
                     | Some row \<Rightarrow> Some (row_get row ''count'')))"
    by (auto simp: counters_def read_summary_counters gc_states_def)
  have post_new: "ExecuteQuery (PosteriorSummaryQuery t) \<notin> set (drop (length tr) prior)"
    by (simp add: prior_def summary_query_def exists_query_def)
  have drop_prior: "\<And>xs. drop (length tr) (prior @ xs) = drop (length tr) prior @ xs"
    by (simp add: prior_def)
  have run: "(case internal_geocode h env tr t s c st co status dry_run of (tr', r) \<Rightarrow>
       take (length prior) tr' = prior
       \<and> ((required_quota_positive before = Inr True \<and> \<not> dry_run \<and> lock_answer env prior t
            \<and> \<not> isl (long_query_answer env
                  (prior @ [LockEnter t,
                            ExecuteQuery (AlterTableAddColumns t
                              (geocode_query_columns h t s c st co status
                                 @ [(HASH_COLUMN, ''text'')]))])
                  (GeocodeQuery t s c st co status)))
           \<longrightarrow> tr' = prior @ [LockEnter t,
                   ExecuteQuery (AlterTableAddColumns t
                     (geocode_query_columns h t s c st co status @ [(HASH_COLUMN, ''text'')])),
                   ExecuteLongRunningQuery (GeocodeQuery t s c st co status),
                   LockExit t] @ [ExecuteQuery (PosteriorSummaryQuery t)]
               \<and> r = Inr (set_post_summary_info h counters
                   (query_answer env (prior @ [LockEnter t,
                   ExecuteQuery (AlterTableAddColumns t
                     (geocode_query_columns h t s c st co status @ [(HASH_COLUMN, ''text'')])),
                   ExecuteLongRunningQuery (GeocodeQuery t s c st co status),
                   LockExit t]) (PosteriorSummaryQuery t)) before))
       \<and> (\<not> (required_quota_positive before = Inr True \<and> \<not> dry_run \<and> lock_answer env prior t
            \<and> \<not> isl (long_query_answer env
                  (prior @ [LockEnter t,
                            ExecuteQuery (AlterTableAddColumns t
                              (geocode_query_columns h t s c st co status
                                 @ [(HASH_COLUMN, ''text'')]))])
                  (GeocodeQuery t s c st co status)))
           \<longrightarrow> ExecuteQuery (PosteriorSummaryQuery t) \<notin> set (drop (length tr) tr')
               \<and> (case r of
                  Inl e \<Rightarrow> required_quota_positive before = Inl e
                | Inr md \<Rightarrow>
                    \<forall>k. k \<notin> {''error'', ''aborted'', ''remaining_quota'', ''estimated_cost''}
                          \<longrightarrow> md k = before k)))"
    using post_new
    by (auto simp: internal_geocode_cases p1 p2 p3 Let_def len record_error_other_keys
          split: sum.split)
  from run counted show ?thesis
    unfolding Let_def exists_query_def [symmetric] first_time_def [symmetric]
      summary_query_def [symmetric] prior_def [symmetric] prior_result_def [symmetric] counters_def [symmetric]
      before_def [symmetric]
    by (simp split: prod.split)
qed


theorem geocode_reports_summary_witness:
  "fst (internal_geocode example_helpers (example_env 3) [] ''cache'' ''address'' None None None
          [(''relevance'', ''gc_status_rel'')] False)
     = [ExecuteQuery (ExistsColumnQuery ''cache'' ''carto_geocode_hash''),
        ExecuteQuery (PriorSummaryQuery ''cache'' ''address'' None None None),
        LockEnter ''cache'',
        ExecuteQuery (AlterTableAddColumns ''cache''
          [(''gc_status_rel'', ''numeric''), (''carto_geocode_hash'', ''text'')]),
        ExecuteLongRunningQuery
          (GeocodeQuery ''cache'' ''address'' None None None [(''relevance'', ''gc_status_rel'')]),
        LockExit ''cache'',
        ExecuteQuery (PosteriorSummaryQuery ''cache'')]
   \<and> (case snd (internal_geocode example_helpers (example_env 3) [] ''cache'' ''address'' None
                   None None [(''relevance'', ''gc_status_rel'')] False) of
        Inl e \<Rightarrow> False
      | Inr md \<Rightarrow> md ''required_quota'' = Some (PInt 3)
                  \<and> md ''final_records_with_geometry'' = Some (PInt 4))
   \<and> fst (internal_geocode example_helpers first_time_env [] ''fresh'' ''address'' None None None
          [] False)
     = [ExecuteQuery (ExistsColumnQuery ''fresh'' ''carto_geocode_hash''),
        ExecuteQuery (FirstTimeSummaryQuery ''fresh'' ''address'' None None None),
        LockEnter ''fresh'',
        ExecuteQuery (AlterTableAddColumns ''fresh'' [(''carto_geocode_hash'', ''text'')]),
        ExecuteLongRunningQuery (GeocodeQuery ''fresh'' ''address'' None None None []),
        LockExit ''fresh'',
        ExecuteQuery (PosteriorSummaryQuery ''fresh'')]
   \<and> (case snd (internal_geocode example_helpers first_time_env [] ''fresh'' ''address'' None
                   None None [] False) of
        Inl e \<Rightarrow> False
      | Inr md \<Rightarrow> md ''required_quota'' = Some (PInt 2)
                  \<and> md ''final_records_with_geometry'' = Some (PInt 2))"
proof -
  obtain tr' r where run:
    "internal_geocode example_helpers (example_env 3) [] ''cache'' ''address'' None None None
       [(''relevance'', ''gc_status_rel'')] False = (tr', r)"
    by (cases "internal_geocode example_helpers (example_env 3) [] ''cache'' ''address'' None
                 None None [(''relevance'', ''gc_status_rel'')] False")
  from geocode_reports_summary
         [where h = example_helpers and env = "example_env 3" and tr = "[]" and t = "''cache''"
            and s = "''address''" and c = None and st = None and co = None
            and status = "[(''relevance'', ''gc_status_rel'')]" and dry_run = False]
  have known: "tr' = [ExecuteQuery (ExistsColumnQuery ''cache'' ''carto_geocode_hash''),
        ExecuteQuery (PriorSummaryQuery ''cache'' ''address'' None None None),
        LockEnter ''cache'',
        ExecuteQuery (AlterTableAddColumns ''cache''
          [(''gc_status_rel'', ''numeric''), (''carto_geocode_hash'', ''text'')]),
        ExecuteLongRunningQuery
          (GeocodeQuery ''cache'' ''address'' None None None [(''relevance'', ''gc_status_rel'')]),
        LockExit ''cache'',
        ExecuteQuery (PosteriorSummaryQuery ''cache'')]
      \<and> (case r of Inl e \<Rightarrow> False
          | Inr md \<Rightarrow> md ''required_quota'' = Some (PInt 3)
                  \<and> md ''final_records_with_geometry'' = Some (PInt 4))"
    unfolding run Let_def
    by (simp add: example_defs)
  obtain tr'' r' where run':
    "internal_geocode example_helpers first_time_env [] ''fresh'' ''address'' None None None
       [] False = (tr'', r')"
    by (cases "internal_geocode example_helpers first_time_env [] ''fresh'' ''address'' None
                 None None [] False")
  from geocode_reports_summary
         [where h = example_helpers and env = first_time_env and tr = "[]" and t = "''fresh''"
            and s = "''address''" and c = None and st = None and co = None
            and status = "[]" and dry_run = False]
  have fresh: "tr'' = [ExecuteQuery (ExistsColumnQuery ''fresh'' ''carto_geocode_hash''),
        ExecuteQuery (FirstTimeSummaryQuery ''fresh'' ''address'' None None None),
        LockEnter ''fresh'',
        ExecuteQuery (AlterTableAddColumns ''fresh'' [(''carto_geocode_hash'', ''text'')]),
        ExecuteLongRunningQuery (GeocodeQuery ''fresh'' ''address'' None None None []),
        LockExit ''fresh'',
        ExecuteQuery (PosteriorSummaryQuery ''fresh'')]
      \<and> (case r' of Inl e \<Rightarrow> False
          | Inr md \<Rightarrow> md ''required_quota'' = Some (PInt 2)
                  \<and> md ''final_records_with_geometry'' = Some (PInt 2))"
    unfolding run' Let_def
    by (simp add: example_defs first_time_env_def)
  from known fresh show ?thesis
    by (simp add: run run')
qed

subsection \<open>Cached geocoding\<close>

lemma uploads_append: "uploads (tr @ tr') = uploads tr @ uploads tr'"
  by (induction tr rule: uploads.induct) simp_all

lemma internal_geocode_extends:
  "\<exists>new. fst (internal_geocode h env tr t s c st co status dry_run) = tr @ new
         \<and> uploads new = [] \<and> filter is_update_from new = []"
  by (auto simp: internal_geocode_cases prior_trace Let_def split: sum.split)

lemma table_for_geocoding_extends:
  "\<exists>new. fst (table_for_geocoding h env tr (Str x) tn ie dr) = tr @ new
         \<and> uploads new = [] \<and> filter is_update_from new = []"
  by (simp add: table_for_geocoding_def is_table_def is_query_def Let_def)

lemma geocode_call_extends:
  "\<exists>new. fst (geocode_call h env tr (Str x) s c st co status tn ie dry_run) = tr @ new
         \<and> uploads new = [] \<and> filter is_update_from new = []"
proof (cases "column_or_value_args h c st co (column_names_answer env tr (Str x))")
  case (Inl e)
  then show ?thesis
    by (simp add: geocode_call_def geocode_not_cached_def Let_def)
next
  case (Inr args)
  obtain c' st' co' where args: "args = (c', st', co')"
    by (cases args) auto
  obtain tr1 name tmp where
    t: "table_for_geocoding h env (tr @ [GetColumnNames (Str x)]) (Str x) tn ie dry_run
          = (tr1, name, tmp)"
    by (cases "table_for_geocoding h env (tr @ [GetColumnNames (Str x)]) (Str x) tn ie dry_run")
       auto
  from table_for_geocoding_extends [of h env "tr @ [GetColumnNames (Str x)]" x tn ie dry_run] t
  obtain new1 where n1: "tr1 = tr @ GetColumnNames (Str x) # new1" "uploads new1 = []"
      "filter is_update_from new1 = []"
    by auto
  obtain tr2 r where g: "internal_geocode h env tr1 name s c' st' co' status dry_run = (tr2, r)"
    by (cases "internal_geocode h env tr1 name s c' st' co' status dry_run")
  from internal_geocode_extends [of h env tr1 name s c' st' co' status dry_run] g
  obtain new2 where n2: "tr2 = tr1 @ new2" "uploads new2 = []" "filter is_update_from new2 = []"
    by auto
  have "fst (geocode_call h env tr (Str x) s c st co status tn ie dry_run) =
          (case r of
             Inl e \<Rightarrow> tr2
           | Inr md \<Rightarrow>
               if dry_run then tr2
               else if tmp then tr2 @ [ReadCarto name, DeleteTable name]
               else tr2 @ [ReadCarto name])"
    by (simp add: geocode_call_def geocode_not_cached_def Let_def Inr args t g split: sum.split)
  with n1 n2 show ?thesis
    by (auto simp: uploads_append split: sum.split)
qed







lemma cached_geocode_uploads:
  assumes "has_table_answer env tr tn"
    and "HASH_COLUMN \<in> set (column_names_answer env (tr @ [HasTable tn]) (Str tn))"
    and "HASH_COLUMN \<notin> set cols"
  shows "uploads (fst (cached_geocode h env tr cols (DataFrame df) tn s c st co dry_run)) =
           uploads tr @ [(DataFrame df,
                          temporary_name_answer env
                            (tr @ [HasTable tn, GetColumnNames (Str tn)]))]"
proof (cases "column_or_value_args h c st co cols")
  case (Inl e)
  with assms show ?thesis
    by (simp add: cached_geocode_cases Let_def is_table_def uploads_append)
next
  case (Inr args)
  obtain hcity hstate hcountry where args: "args = (hcity, hstate, hcountry)"
    by (cases args) auto
  define tmp where "tmp = temporary_name_answer env (tr @ [HasTable tn, GetColumnNames (Str tn)])"
  define merged where
    "merged = tr @ [HasTable tn, GetColumnNames (Str tn), NewTemporaryTableName,
                    ToCarto (DataFrame df) tmp None,
                    ExecuteQuery (AlterTableAddColumns tmp [(HASH_COLUMN, ''text'')]),
                    ExecuteQuery (UpdateFrom tmp tn HASH_COLUMN
                                    (HashExpr s hcity hstate hcountry tmp)),
                    DeleteTable tn,
                    UpdateTable tmp tn ''private'']"
  have a: "cached_geocode h env tr cols (DataFrame df) tn s c st co dry_run =
             geocode_call h env merged (Str tn) s c st co (DEFAULT_STATUS h) None ''fail'' dry_run"
    using assms Inr args
    by (simp add: cached_geocode_cases Let_def is_table_def merged_def tmp_def)
  from geocode_call_extends [of h env merged tn s c st co "DEFAULT_STATUS h" None "''fail''"
                               dry_run]
  obtain new where new:
    "fst (geocode_call h env merged (Str tn) s c st co (DEFAULT_STATUS h) None ''fail'' dry_run)
       = merged @ new" "uploads new = []"
    by blast
  show ?thesis
    unfolding a new(1) using new(2) by (simp add: uploads_append merged_def tmp_def)
qed

lemmas example_path_defs =
  geocode_def cached_geocode_cases geocode_call_def geocode_not_cached_def
  column_or_value_args_def table_for_geocoding_def is_table_def is_query_def
  source_string_def truthy_def
  internal_geocode_cases prior_trace Let_def

text \<open>
  Claim C1, as the code has it. For every cached geocoding call
  (\<open>cached=True\<close>, a \<open>table_name\<close> that names an existing cache table with the
  hash column, and a dataframe without that column), the call uploads the
  whole dataframe, every row of it whatever its hash, to a temporary table,
  and that is its only upload.
\<close>

theorem cached_geocode_uploads_whole_dataframe:
  assumes "truthy tn"
    and "has_table_answer env (tr @ [GetColumnNames (DataFrame df)]) (the tn)"
    and "HASH_COLUMN \<in> set (column_names_answer env
           (tr @ [GetColumnNames (DataFrame df), HasTable (the tn)]) (Str (the tn)))"
    and "HASH_COLUMN \<notin> set (column_names_answer env tr (DataFrame df))"
  shows "uploads (fst (geocode h env tr (DataFrame df) s c st co status tn ie dry_run True)) =
           uploads tr @ [(DataFrame df,
                          temporary_name_answer env
                            (tr @ [GetColumnNames (DataFrame df), HasTable (the tn),
                                   GetColumnNames (Str (the tn))]))]
       \<and> uploaded_rows (fst (geocode h env tr (DataFrame df) s c st co status tn ie dry_run True))
           = uploaded_rows tr @ df_rows df"
proof -
  from assms
  have "uploads (fst (geocode h env tr (DataFrame df) s c st co status tn ie dry_run True)) =
           uploads tr @ [(DataFrame df,
                          temporary_name_answer env
                            (tr @ [GetColumnNames (DataFrame df), HasTable (the tn),
                                   GetColumnNames (Str (the tn))]))]"
    using cached_geocode_uploads
      [of env "tr @ [GetColumnNames (DataFrame df)]" "the tn"
          "column_names_answer env tr (DataFrame df)" h df s c st co dry_run]
    by (simp add: geocode_def Let_def uploads_append)
  then show ?thesis
    by (simp add: uploaded_rows_def)
qed

theorem cached_geocode_uploads_whole_dataframe_witness:
  "uploaded_rows
     (fst (geocode example_helpers (example_env 0) [] (DataFrame example_dataframe) ''address''
             None None None [] (Some ''cache'') ''fail'' False True))
     = [[(''address'', PStr ''Gran Via 46'')]]"
proof -
  have 1: "truthy (Some ''cache'')"
    by (simp add: truthy_def)
  have 2: "has_table_answer (example_env 0) ([] @ [GetColumnNames (DataFrame example_dataframe)])
             (the (Some ''cache''))"
    by (simp add: example_defs)
  have 3: "HASH_COLUMN \<in> set (column_names_answer (example_env 0)
             ([] @ [GetColumnNames (DataFrame example_dataframe), HasTable (the (Some ''cache''))])
             (Str (the (Some ''cache''))))"
    by (simp add: example_defs)
  have 4: "HASH_COLUMN \<notin> set (column_names_answer (example_env 0) []
             (DataFrame example_dataframe))"
    by (simp add: example_defs example_dataframe_def)
  from cached_geocode_uploads_whole_dataframe [OF 1 2 3 4, of example_helpers "''address''"
         None None None "[]" "''fail''" False]
  show ?thesis
    by (simp add: uploaded_rows_def example_dataframe_def)
qed

text \<open>
  The claim as it was stated, that only the rows whose hash differs from the
  hashes stored in the cache table are uploaded, fails: the one row of the
  example dataframe has its hash in the cache table, so no row has changed,
  and the row is uploaded all the same.
\<close>

theorem cached_geocode_uploads_counterexample:
  "has_table_answer (example_env 0) [GetColumnNames (DataFrame example_dataframe)] ''cache''
   \<and> HASH_COLUMN \<in> set (column_names_answer (example_env 0)
        [GetColumnNames (DataFrame example_dataframe), HasTable ''cache''] (Str ''cache''))
   \<and> HASH_COLUMN \<notin> set (column_names_answer (example_env 0) [] (DataFrame example_dataframe))
   \<and> changed_rows example_eval (HashExpr ''address'' None None None ''tmp_1'') example_dataframe
        (df_rows (read_carto_answer (example_env 0) [] ''cache'')) = []
   \<and> uploaded_rows
        (fst (geocode example_helpers (example_env 0) [] (DataFrame example_dataframe) ''address''
                None None None [] (Some ''cache'') ''fail'' False True))
        = [[(''address'', PStr ''Gran Via 46'')]]
   \<and> uploaded_rows
        (fst (geocode example_helpers (example_env 0) [] (DataFrame example_dataframe) ''address''
                None None None [] (Some ''cache'') ''fail'' False True))
        \<noteq> changed_rows example_eval (HashExpr ''address'' None None None ''tmp_1'')
            example_dataframe (df_rows (read_carto_answer (example_env 0) [] ''cache''))"
  by (simp add: example_path_defs example_defs example_dataframe_def example_cache_rows_def
        changed_rows_def joins_def example_eval_def uploaded_rows_def)

end
